theory Spec2Isabelle
  imports Complex_Main
begin

section \<open>JavaScript numbers\<close>

text \<open>
  A JavaScript number is a finite double, an infinity or NaN. Every finite double is a
  real number and the comparison of two finite doubles is the comparison of the reals
  they denote, so finite values are embedded as \<open>real\<close>; arithmetic on them is taken
  exactly (no rounding), which is the idealisation made throughout this development.
  The relational operators answer \<open>false\<close> as soon as one operand is NaN.
\<close>

datatype jsnum = Fin real | PosInf | NegInf | NaN

fun js_ge :: "jsnum \<Rightarrow> jsnum \<Rightarrow> bool" where
  "js_ge NaN _ = False"
| "js_ge _ NaN = False"
| "js_ge PosInf _ = True"
| "js_ge _ NegInf = True"
| "js_ge NegInf _ = False"
| "js_ge _ PosInf = False"
| "js_ge (Fin a) (Fin b) = (b \<le> a)"

fun js_lt :: "jsnum \<Rightarrow> jsnum \<Rightarrow> bool" where
  "js_lt NaN _ = False"
| "js_lt _ NaN = False"
| "js_lt _ NegInf = False"
| "js_lt NegInf _ = True"
| "js_lt PosInf _ = False"
| "js_lt _ PosInf = True"
| "js_lt (Fin a) (Fin b) = (a < b)"

definition js_le :: "jsnum \<Rightarrow> jsnum \<Rightarrow> bool" where
  "js_le a b = js_ge b a"

section \<open>Status deriver\<close>

subsection \<open>Health\<close>

text \<open>The object literal returned by \<open>getHealthInfo\<close>: label, CSS colour, THREE colour, badge class.\<close>

record health_info =
  label :: string
  hex :: string
  three :: nat
  cls :: string

text \<open>
  \<^verbatim>\<open>
  function getHealthInfo(score) {
    if (score >= 80) return { label: "Healthy",  hex: "#22c55e", three: 0x22c55e, cls: "badge-healthy"  }
    if (score >= 50) return { label: "Warning",  hex: "#f59e0b", three: 0xf59e0b, cls: "badge-warning"  }
    return                   { label: "Critical", hex: "#ef4444", three: 0xef4444, cls: "badge-critical" }
  }
  \<close>
\<close>

definition getHealthInfo :: "jsnum \<Rightarrow> health_info" where
  "getHealthInfo score =
     (if js_ge score (Fin 80) then
        \<lparr>label = ''Healthy'', hex = ''#22c55e'', three = 0x22c55e, cls = ''badge-healthy''\<rparr>
      else if js_ge score (Fin 50) then
        \<lparr>label = ''Warning'', hex = ''#f59e0b'', three = 0xf59e0b, cls = ''badge-warning''\<rparr>
      else
        \<lparr>label = ''Critical'', hex = ''#ef4444'', three = 0xef4444, cls = ''badge-critical''\<rparr>)"

text \<open>The order of the tiers, worst first: Critical, Warning, Healthy.\<close>

definition tier_rank :: "health_info \<Rightarrow> nat" where
  "tier_rank h =
     (if label h = ''Healthy'' then 2 else if label h = ''Warning'' then 1 else 0)"

subsection \<open>Warranty\<close>

record warranty_status =
  color :: string
  status :: string

text \<open>
  \<open>daysRemaining\<close> is a number: an integer after \<open>Math.floor\<close>, or NaN when the expiry
  string does not parse as a date.
  \<^verbatim>\<open>
  function getWarrantyStatus(daysRemaining) {
    if (daysRemaining < 0) return { color: '#ef4444', status: 'expired' };
    if (daysRemaining < 30) return { color: '#f59e0b', status: 'critical' };
    if (daysRemaining < 90) return { color: '#eab308', status: 'warning' };
    return { color: '#22c55e', status: 'healthy' };
  }
  \<close>
\<close>

definition getWarrantyStatus :: "jsnum \<Rightarrow> warranty_status" where
  "getWarrantyStatus daysRemaining =
     (if js_lt daysRemaining (Fin 0) then \<lparr>color = ''#ef4444'', status = ''expired''\<rparr>
      else if js_lt daysRemaining (Fin 30) then \<lparr>color = ''#f59e0b'', status = ''critical''\<rparr>
      else if js_lt daysRemaining (Fin 90) then \<lparr>color = ''#eab308'', status = ''warning''\<rparr>
      else \<lparr>color = ''#22c55e'', status = ''healthy''\<rparr>)"

text \<open>
  A parsed \<open>Date\<close>: its time value in milliseconds (an integer), or an invalid date.
  \<^verbatim>\<open>Math.floor((new Date(expiry) - new Date()) / (1000 * 60 * 60 * 24))\<close>
  with the current time \<open>now\<close> in milliseconds. The difference of two time values is an
  integer and the quotient is taken exactly, so the floor is integer floor division.
\<close>

datatype jsdate = Valid int | Invalid

fun daysRemaining_of :: "jsdate \<Rightarrow> int \<Rightarrow> jsnum" where
  "daysRemaining_of (Valid expiry) now =
     Fin (of_int ((expiry - now) div (1000 * 60 * 60 * 24)))"
| "daysRemaining_of Invalid now = NaN"

text \<open>A CSS colour \<open>#rrggbb\<close> read as the number the THREE colour constants denote.\<close>

definition hex_digit :: "char \<Rightarrow> nat" where
  "hex_digit c =
     (let n = (of_char c :: nat)
      in if 48 \<le> n \<and> n \<le> 57 then n - 48
         else if 97 \<le> n \<and> n \<le> 102 then n - 87
         else 0)"

definition css_value :: "string \<Rightarrow> nat" where
  "css_value s = foldl (\<lambda>acc c. 16 * acc + hex_digit c) 0 (tl s)"

section \<open>Strings\<close>

text \<open>\<open>s.startsWith(p)\<close> and \<open>s.includes(sub)\<close>.\<close>

definition startsWith :: "string \<Rightarrow> string \<Rightarrow> bool" where
  "startsWith s p = (take (length p) s = p)"

definition includes_str :: "string \<Rightarrow> string \<Rightarrow> bool" where
  "includes_str s sub = list_ex (\<lambda>i. startsWith (drop i s) sub) [0..<Suc (length s)]"

text \<open>\<open>n.toString()\<close> for a non-negative integer: its decimal digits.\<close>

definition digit_char :: "nat \<Rightarrow> char" where
  "digit_char d = ''0123456789'' ! d"

fun string_of_nat :: "nat \<Rightarrow> string" where
  "string_of_nat n =
     (if n < 10 then [digit_char n]
      else string_of_nat (n div 10) @ [digit_char (n mod 10)])"

declare string_of_nat.simps [simp del]

text \<open>\<open>s.padStart(2, '0')\<close> and \<open>s.toUpperCase()\<close> (on ASCII letters).\<close>

definition padStart2 :: "string \<Rightarrow> string" where
  "padStart2 s = replicate (2 - length s) (CHR ''0'') @ s"

definition upper_char :: "char \<Rightarrow> char" where
  "upper_char c =
     (case map_of (zip ''abcdefghijklmnopqrstuvwxyz'' ''ABCDEFGHIJKLMNOPQRSTUVWXYZ'') c of
        None \<Rightarrow> c
      | Some u \<Rightarrow> u)"

definition toUpperCase :: "string \<Rightarrow> string" where
  "toUpperCase s = map upper_char s"

section \<open>Data model\<close>

subsection \<open>Scene objects\<close>

text \<open>
  JavaScript objects have an identity: \<open>state3D.selectedMesh\<close>, the array
  \<open>interactableMeshes\<close> and the scene graph hold references to the same mesh. Objects are
  numbered, and the store maps the number of a mesh to its current fields.
\<close>

type_synonym obj_id = nat

record vec3 =
  vx :: real
  vy :: real
  vz :: real

text \<open>
  A clipping plane of a material is either the shared \<open>floorPlane\<close> object or a detached
  copy of a plane (with the constant it had when copied): \<open>Material.clone()\<close> copies the
  planes of its source.
\<close>

datatype plane_ref = FloorPlane | PlaneCopy real

record material =
  mat_id :: nat
  emissive :: nat
  emissiveIntensity :: real
  opacity :: real
  transparent :: bool
  clippingPlanes :: "plane_ref list"
  clipShadows :: bool
  map_tex :: "nat option"
  normalMap :: "nat option"
  emissiveMap :: "nat option"

text \<open>The warranty ring: the only child object the program attaches to a device mesh.\<close>

record ring =
  ring_geometry :: nat
  ring_material :: nat
  ring_color :: nat
  ring_opacity :: real
  ring_rotation_x :: real
  ring_position_y :: real

datatype parent_ref = Scene | Model

record mesh =
  name :: string
  isMesh :: bool
  position :: vec3
  rotation_y :: real
  mesh_scale :: vec3
  geometry :: "nat option"
  material :: "material option"
  dbKey :: "string option"
  originalMat :: "material option"
  children :: "ring list"
  parent :: "parent_ref option"

subsection \<open>Devices\<close>

text \<open>An entry of \<open>DEVICE_TEMPLATES\<close>.\<close>

record template =
  t_name :: string
  t_type :: string
  t_manufacturer :: string
  t_model :: string
  t_notes :: string

definition DEVICE_TEMPLATES :: "(string \<times> template) list" where
  "DEVICE_TEMPLATES =
    [(''Galaxy_VL'', \<lparr>t_name = ''Galaxy VL UPS'', t_type = ''Uninterruptible Power Supply'',
        t_manufacturer = ''Schneider Electric'', t_model = ''Galaxy VL 500kW'',
        t_notes = ''High-efficiency scalable power protection.''\<rparr>),
     (''NetShelter'', \<lparr>t_name = ''NetShelter SX Rack'', t_type = ''Server Rack Enclosure'',
        t_manufacturer = ''APC by Schneider'', t_model = ''AR3100'',
        t_notes = ''Standard enclosure for low to medium density.''\<rparr>),
     (''PremSet'', \<lparr>t_name = ''Premset Switchgear'', t_type = ''MV Switchgear'',
        t_manufacturer = ''Schneider Electric'', t_model = ''Premset 15kV'',
        t_notes = ''Shielded Solid Insulation System (2SIS).''\<rparr>),
     (''PowerLogic_ION'', \<lparr>t_name = ''PowerLogic ION9000'', t_type = ''Power Quality Meter'',
        t_manufacturer = ''Schneider Electric'', t_model = ''ION9000'',
        t_notes = ''Class 0.1S accuracy, PQ analysis.''\<rparr>),
     (''EVlink_Pro'', \<lparr>t_name = ''EVlink Pro AC'', t_type = ''EV Charging Station'',
        t_manufacturer = ''Schneider Electric'', t_model = ''EVlink Pro'',
        t_notes = ''Smart charging for fleets and buildings.''\<rparr>),
     (''Roof_Solar_Array'', \<lparr>t_name = ''EcoStruxure Solar'', t_type = ''Photovoltaic Array'',
        t_manufacturer = ''Schneider Electric'', t_model = ''Conext CL'',
        t_notes = ''Rooftop renewable energy generation.''\<rparr>)]"

text \<open>
  A value of \<open>DEVICE_DB\<close>. \<open>db_id\<close> is absent for the devices found in the asset;
  \<open>warrantyExpiry\<close> is \<open>None\<close> when the field is null, undefined or empty (falsy).
\<close>

record device =
  db_id :: "nat option"
  dev_name :: string
  dev_type :: string
  manufacturer :: string
  serial :: string
  health :: jsnum
  lastMaintenance :: string
  location :: string
  dev_notes :: string
  warrantyExpiry :: "jsdate option"

text \<open>A device as the Persistence Service returns it.\<close>

record product =
  mesh_identifier :: string
  product_name :: string
  product_type :: string
  product_manufacturer :: string
  description :: string

record deviceData =
  device_id :: nat
  product :: product
  position_x :: real
  position_y :: real
  position_z :: real
  device_rotation_y :: "real option"
  serial_number :: string
  health_score :: jsnum
  last_maintenance :: "string option"
  floor_number :: nat
  device_notes :: "string option"
  warranty_expiry :: "jsdate option"

subsection \<open>Animations, messages, the panel and the 2D viewport\<close>

text \<open>
  A started tween of the TWEEN registry. The blink and the ring pulse repeat forever;
  the fade-out of a deleted mesh and the growth of a spawned one run once.
\<close>

type_synonym tween_id = nat

datatype tween =
    Blink obj_id nat
  | RingPulse obj_id nat
  | FadeOut obj_id
  | SpawnGrow obj_id

datatype resource = Geometry nat | Texture nat | Material nat

datatype alert =
    CannotDeleteNoInfo
  | DeleteFailed
  | RemovedSuccessfully string string
  | InvalidCoordinates
  | PositionSavedToDatabase real real real
  | PositionUpdatedTemplate real real real
  | PositionSaved

datatype console_msg =
    SavedPosition nat
  | FailedToSavePosition
  | DeletedDevice nat
  | FailedToDeleteDevice
  | FailedToUpdateHealth
  | RemovingTemplateDevice string
  | Deleting string string
  | MeshRemoved
  | NoModelFound string
  | Spawned string
  | OriginalMatNotFound
  | LoadedFromGLB nat
  | NoWarehouseId
  | LoadingWarehouse string

datatype fetch_outcome = HttpOk | HttpNotOk | NetworkFailure

datatype js_error = TypeError

datatype floor_choice = All | Level int

datatype view = View3D | ViewNode

datatype warranty_section =
    WarrantyInfo bool jsdate jsnum string
  | SourceOnly bool

record infoPanel =
  active :: bool
  uiName :: string
  uiSerial :: string
  uiHealth :: jsnum
  uiDate :: string
  uiStatusText :: string
  uiStatusColor :: string
  posInputs :: "vec3 option"
  warrantySection :: "warranty_section option"

record nodeView =
  offsetX :: real
  offsetY :: real
  scale :: real
  isDragging :: bool
  dragStartX :: real
  dragStartY :: real
  hoveredNode :: "string option"
  minScale :: real
  maxScale :: real

subsection \<open>The program state\<close>

text \<open>
  The module-level variables of \<open>main.js\<close>, the objects they refer to, and the effects
  the program has on its environment: the tweens started, the GPU resources disposed, the
  alerts shown, the callbacks scheduled with \<open>setTimeout\<close>, and the console.
\<close>

record state =
  DEVICE_DB :: "(string \<times> device) list"
  interactableMeshes :: "obj_id list"
  heap :: "obj_id \<rightharpoonup> mesh"
  scene_children :: "obj_id list"
  selectedMesh :: "obj_id option"
  blinkTween :: "tween_id option"
  tweens :: "(tween_id \<times> tween) list"
  floorPlane_constant :: real
  FLOOR_HEIGHT :: real
  floorSelect_options :: "int list"
  floorSelect_value :: "floor_choice option"
  camera_position :: vec3
  camera_target :: vec3
  pendingDatabaseDevices :: "deviceData list option"
  typeCounters :: "(string \<times> nat) list"
  CURRENT_WAREHOUSE_ID :: "string option"
  panel :: infoPanel
  node_view :: nodeView
  current2DView :: view
  disposed :: "resource list"
  alerts :: "alert list"
  timeouts :: "alert list"
  console :: "console_msg list"
  next_id :: nat
  clock :: int

section \<open>Registry, store and panel\<close>

text \<open>
  \<open>DEVICE_DB\<close> is a plain object used as a dictionary; its keys are enumerated in
  insertion order, so it is an association list: assigning to a present key keeps the
  key's place, assigning to a new key appends, \<open>delete\<close> removes.
\<close>

definition db_lookup :: "(string \<times> device) list \<Rightarrow> string \<Rightarrow> device option" where
  "db_lookup db k = map_of db k"

fun db_set :: "string \<Rightarrow> device \<Rightarrow> (string \<times> device) list \<Rightarrow> (string \<times> device) list" where
  "db_set k v [] = [(k, v)]"
| "db_set k v (p # ps) = (if fst p = k then (k, v) # ps else p # db_set k v ps)"

definition db_delete :: "string \<Rightarrow> (string \<times> device) list \<Rightarrow> (string \<times> device) list" where
  "db_delete k db = filter (\<lambda>p. fst p \<noteq> k) db"

text \<open>\<open>DEVICE_DB[mesh.userData.dbKey]\<close>: an undefined key is the property name "undefined".\<close>

definition key_of :: "string option \<Rightarrow> string" where
  "key_of k = (case k of None \<Rightarrow> ''undefined'' | Some x \<Rightarrow> x)"

text \<open>\<open>if (data.db_id)\<close>: absent and 0 are falsy.\<close>

definition truthy_id :: "nat option \<Rightarrow> bool" where
  "truthy_id i = (case i of None \<Rightarrow> False | Some n \<Rightarrow> n \<noteq> 0)"

text \<open>The meshes of \<open>interactableMeshes\<close>, in order, and \<open>interactableMeshes.find(m => P m)\<close>.\<close>

definition meshes_of :: "state \<Rightarrow> (obj_id \<times> mesh) list" where
  "meshes_of s = List.map_filter (\<lambda>i. map_option (Pair i) (heap s i)) (interactableMeshes s)"

definition find_mesh :: "(mesh \<Rightarrow> bool) \<Rightarrow> state \<Rightarrow> (obj_id \<times> mesh) option" where
  "find_mesh P s = List.find (\<lambda>p. P (snd p)) (meshes_of s)"

text \<open>\<open>x.toFixed(2)\<close> read back as a number: two decimals, halves away from zero.\<close>

definition toFixed2 :: "real \<Rightarrow> real" where
  "toFixed2 x =
     (if x < 0 then - (of_int (round (- x * 100)) / 100) else of_int (round (x * 100)) / 100)"

text \<open>
  \<open>showInfoPanel(dbKey)\<close>: returns at once when the registry has no entry for the key.
  The key is the \<open>userData.dbKey\<close> of a mesh, which may be undefined, or a key of the
  registry. The panel's elements are taken to exist in the page. The panel shows the name,
  the serial number, the health and its tier, the date of the last maintenance, the
  position of the mesh with two decimals, whether the device is persisted, and for a
  device with a warranty date the days remaining and the colour of the warranty tier.
\<close>

definition showInfoPanel :: "string option \<Rightarrow> state \<Rightarrow> state" where
  "showInfoPanel dbKey' s =
     (case db_lookup (DEVICE_DB s) (key_of dbKey') of
        None \<Rightarrow> s
      | Some data \<Rightarrow>
          let h = getHealthInfo (health data);
              p1 = (panel s)\<lparr>uiName := dev_name data, uiSerial := serial data,
                     uiHealth := health data, uiDate := lastMaintenance data,
                     uiStatusText := label h, uiStatusColor := hex h\<rparr>;
              p2 = (case find_mesh (\<lambda>m. dbKey m = dbKey') s of
                      None \<Rightarrow> p1
                    | Some (i, m) \<Rightarrow>
                        p1\<lparr>posInputs := Some \<lparr>vx = toFixed2 (vx (position m)),
                                vy = toFixed2 (vy (position m)), vz = toFixed2 (vz (position m))\<rparr>\<rparr>);
              isDb = truthy_id (db_id data);
              p3 = (case warrantyExpiry data of
                      Some e \<Rightarrow>
                        let daysRemaining = daysRemaining_of e (clock s);
                            warrantyStatus = getWarrantyStatus daysRemaining
                        in p2\<lparr>warrantySection :=
                              Some (WarrantyInfo isDb e daysRemaining (color warrantyStatus))\<rparr>
                    | None \<Rightarrow> p2\<lparr>warrantySection := Some (SourceOnly isDb)\<rparr>)
          in s\<lparr>panel := p3\<lparr>active := True\<rparr>\<rparr>)"

definition hideInfoPanel :: "state \<Rightarrow> state" where
  "hideInfoPanel s = s\<lparr>panel := (panel s)\<lparr>active := False\<rparr>\<rparr>"

section \<open>Selection controller\<close>

definition EYE_LEVEL :: real where
  "EYE_LEVEL = 2.0"

text \<open>\<open>parseInt(document.getElementById('floorSelect').value) || 1\<close>\<close>

definition parseInt_or_1 :: "floor_choice option \<Rightarrow> int" where
  "parseInt_or_1 v =
     (case v of None \<Rightarrow> 1 | Some All \<Rightarrow> 1 | Some (Level n) \<Rightarrow> (if n = 0 then 1 else n))"

text \<open>\<open>material.clone()\<close>: a new material object with the same fields and copied planes.\<close>

definition clone_material :: "nat \<Rightarrow> real \<Rightarrow> material \<Rightarrow> material" where
  "clone_material fresh c m =
     m\<lparr>mat_id := fresh,
       clippingPlanes :=
         map (\<lambda>p. case p of FloorPlane \<Rightarrow> PlaneCopy c | PlaneCopy d \<Rightarrow> PlaneCopy d) (clippingPlanes m)\<rparr>"

text \<open>\<open>tween.stop()\<close> takes the tween out of the registry of running tweens.\<close>

definition stop_tween :: "tween_id \<Rightarrow> state \<Rightarrow> state" where
  "stop_tween t s = s\<lparr>tweens := filter (\<lambda>p. fst p \<noteq> t) (tweens s)\<rparr>"

text \<open>
  \<^verbatim>\<open>
  function deselectAll3D(shouldResetCamera = false) {
    if (state3D.blinkTween) { state3D.blinkTween.stop(); state3D.blinkTween = null }
    if (state3D.selectedMesh) {
      if (state3D.selectedMesh.userData.originalMat) {
        state3D.selectedMesh.material = state3D.selectedMesh.userData.originalMat.clone()
        state3D.selectedMesh.material.clippingPlanes = [floorPlane]
      } else {
        console.warn('originalMat not found, skipping material reset');
      }
      state3D.selectedMesh = null
    }
    if (shouldResetCamera) {
      const floorVal = parseInt(document.getElementById('floorSelect').value) || 1
      const baseHeight = (floorVal - 1) * FLOOR_HEIGHT
      const returnY = baseHeight + EYE_LEVEL
      floorPlane.constant = 1000;
      controls.setLookAt(8, returnY, 8, 0, returnY, 0, true)
    }
  }
  \<close>
  A reference always denotes an object; for an identifier outside the store the model
  only clears the selection.
\<close>

definition deselectAll3D :: "bool \<Rightarrow> state \<Rightarrow> state" where
  "deselectAll3D shouldResetCamera s =
     (let s1 = (case blinkTween s of
                  None \<Rightarrow> s
                | Some t \<Rightarrow> (stop_tween t s)\<lparr>blinkTween := None\<rparr>);
          s2 = (case selectedMesh s1 of
                  None \<Rightarrow> s1
                | Some i \<Rightarrow>
                    (case heap s1 i of
                       None \<Rightarrow> s1
                     | Some m \<Rightarrow>
                         (case originalMat m of
                            Some om \<Rightarrow>
                              s1\<lparr>heap := (heap s1)(i \<mapsto>
                                     m\<lparr>material := Some ((clone_material (next_id s1)
                                          (floorPlane_constant s1) om)\<lparr>clippingPlanes := [FloorPlane]\<rparr>)\<rparr>),
                                 next_id := Suc (next_id s1)\<rparr>
                          | None \<Rightarrow> s1\<lparr>console := console s1 @ [OriginalMatNotFound]\<rparr>))
                    \<lparr>selectedMesh := None\<rparr>)
      in if shouldResetCamera then
           let floorVal = parseInt_or_1 (floorSelect_value s2);
               baseHeight = (of_int floorVal - 1) * FLOOR_HEIGHT s2;
               returnY = baseHeight + EYE_LEVEL
           in s2\<lparr>floorPlane_constant := 1000,
                 camera_position := \<lparr>vx = 8, vy = returnY, vz = 8\<rparr>,
                 camera_target := \<lparr>vx = 0, vy = returnY, vz = 0\<rparr>\<rparr>
         else s2)"

text \<open>
  \<open>select3DMesh(mesh)\<close>. \<open>center\<close> is what
  \<open>new THREE.Box3().setFromObject(mesh).getCenter(...)\<close> computes for a mesh; the library is
  not part of the program, so it is a parameter. Reading \<open>data.health\<close> of a missing
  registry entry, or a field of a missing material, throws a TypeError that leaves the
  assignments made so far in place.
  \<^verbatim>\<open>
  function select3DMesh(mesh) {
    deselectAll3D(false);
    state3D.selectedMesh = mesh;
    const data = DEVICE_DB[mesh.userData.dbKey];
    const h = getHealthInfo(data.health);
    mesh.material.emissive = new THREE.Color(h.three);
    mesh.material.emissiveIntensity = 0.8;
    state3D.blinkTween = new TWEEN.Tween(mesh.material)
      .to({ emissiveIntensity: 1.5 }, 800)
      .yoyo(true).repeat(Infinity).start();
    const box = new THREE.Box3().setFromObject(mesh);
    const center = box.getCenter(new THREE.Vector3());
    const floorIndex = Math.floor(center.y / FLOOR_HEIGHT) + 1;
    floorPlane.constant = floorIndex * FLOOR_HEIGHT;
    document.getElementById('floorSelect').value = floorIndex;
    const camX = center.x + (center.x > 0 ? -4 : 4);
    const camZ = center.z + (center.z > 0 ? -4 : 4);
    const camY = (floorIndex - 1) * FLOOR_HEIGHT + 2.5;
    controls.setLookAt(camX, camY, camZ, center.x, center.y, center.z, true);
    showInfoPanel(mesh.userData.dbKey);
  }
  \<close>
  Assigning a value that is not among the options of a \<open>select\<close> element leaves it with
  no selected option. The function is written in three parts: \<open>highlight\<close> is the
  assignment of the emissive colour and the start of the blink tween, \<open>focus_on\<close> is the
  part from the bounding box to \<open>setLookAt\<close>, and \<open>select3DMesh\<close> puts them together.
  A mesh reference always denotes an object; for an identifier outside the store the model
  answers like the missing registry entry.
\<close>

definition highlight :: "obj_id \<Rightarrow> mesh \<Rightarrow> material \<Rightarrow> health_info \<Rightarrow> state \<Rightarrow> state" where
  "highlight i m mat h s =
     (let s3 = s\<lparr>heap := (heap s)(i \<mapsto>
                  m\<lparr>material := Some (mat\<lparr>emissive := three h, emissiveIntensity := 0.8\<rparr>)\<rparr>)\<rparr>
      in s3\<lparr>blinkTween := Some (next_id s3),
            tweens := tweens s3 @ [(next_id s3, Blink i (mat_id mat))],
            next_id := Suc (next_id s3)\<rparr>)"

definition focus_on :: "vec3 \<Rightarrow> state \<Rightarrow> state" where
  "focus_on center s =
     (let floorIndex = \<lfloor>vy center / FLOOR_HEIGHT s\<rfloor> + 1;
          camX = vx center + (if vx center > 0 then - 4 else 4);
          camZ = vz center + (if vz center > 0 then - 4 else 4);
          camY = (of_int floorIndex - 1) * FLOOR_HEIGHT s + 2.5
      in s\<lparr>floorPlane_constant := of_int floorIndex * FLOOR_HEIGHT s,
            floorSelect_value :=
              (if floorIndex \<in> set (floorSelect_options s) then Some (Level floorIndex) else None),
            camera_position := \<lparr>vx = camX, vy = camY, vz = camZ\<rparr>,
            camera_target := center\<rparr>)"

definition select3DMesh :: "(mesh \<Rightarrow> vec3) \<Rightarrow> obj_id \<Rightarrow> state \<Rightarrow> js_error option \<times> state" where
  "select3DMesh center i s =
     (let s1 = deselectAll3D False s;
          s2 = s1\<lparr>selectedMesh := Some i\<rparr>
      in case heap s2 i of
           None \<Rightarrow> (Some TypeError, s2)
         | Some m \<Rightarrow>
             (case db_lookup (DEVICE_DB s2) (key_of (dbKey m)) of
                None \<Rightarrow> (Some TypeError, s2)
              | Some data \<Rightarrow>
                  (case material m of
                     None \<Rightarrow> (Some TypeError, s2)
                   | Some mat \<Rightarrow>
                       let s4 = highlight i m mat (getHealthInfo (health data)) s2;
                           s5 = (case heap s4 i of
                                   None \<Rightarrow> s4
                                 | Some m' \<Rightarrow> focus_on (center m') s4)
                       in (None, showInfoPanel (dbKey m) s5))))"


section \<open>Visual instance pool\<close>

text \<open>
  \<^verbatim>\<open>
  function addWarrantyIndicator(mesh, warrantyExpiry) {
    if (!warrantyExpiry) return;
    const daysRemaining = Math.floor((new Date(warrantyExpiry) - new Date()) / (1000 * 60 * 60 * 24));
    let ringColor = null;
    if (daysRemaining < 0) ringColor = 0xef4444; // Red - Expired
    else if (daysRemaining < 30) ringColor = 0xf59e0b; // Orange - Critical
    else if (daysRemaining < 90) ringColor = 0xeab308; // Yellow - Warning
    if (!ringColor) return; // No indicator for healthy devices
    const ringGeometry = new THREE.RingGeometry(1.2, 1.4, 32);
    const ringMaterial = new THREE.MeshBasicMaterial({ color: ringColor, side: THREE.DoubleSide,
      transparent: true, opacity: 0.6 });
    const ring = new THREE.Mesh(ringGeometry, ringMaterial);
    ring.rotation.x = -Math.PI / 2;
    ring.position.y = -0.5;
    mesh.add(ring);
    if (daysRemaining < 30) {
      new TWEEN.Tween(ring.scale).to({ x: 1.2, y: 1.2, z: 1.2 }, 1000).yoyo(true).repeat(Infinity).start();
    }
  }
  \<close>
\<close>

definition ringColor_of :: "jsnum \<Rightarrow> nat option" where
  "ringColor_of daysRemaining =
     (if js_lt daysRemaining (Fin 0) then Some 0xef4444
      else if js_lt daysRemaining (Fin 30) then Some 0xf59e0b
      else if js_lt daysRemaining (Fin 90) then Some 0xeab308
      else None)"

definition addWarrantyIndicator :: "obj_id \<Rightarrow> jsdate option \<Rightarrow> state \<Rightarrow> state" where
  "addWarrantyIndicator i expiry s =
     (case expiry of
        None \<Rightarrow> s
      | Some e \<Rightarrow>
          let daysRemaining = daysRemaining_of e (clock s)
          in case ringColor_of daysRemaining of
               None \<Rightarrow> s
             | Some ringColor \<Rightarrow>
                 if ringColor = 0 then s
                 else (case heap s i of
                         None \<Rightarrow> s
                       | Some m \<Rightarrow>
                           let r = \<lparr>ring_geometry = next_id s, ring_material = Suc (next_id s),
                                    ring_color = ringColor, ring_opacity = 0.6,
                                    ring_rotation_x = - pi / 2, ring_position_y = - 0.5\<rparr>;
                               s1 = s\<lparr>heap := (heap s)(i \<mapsto> m\<lparr>children := children m @ [r]\<rparr>),
                                      next_id := next_id s + 2\<rparr>
                           in if js_lt daysRemaining (Fin 30) then
                                s1\<lparr>tweens := tweens s1 @ [(next_id s1, RingPulse i (ring_geometry r))],
                                   next_id := Suc (next_id s1)\<rparr>
                              else s1))"

text \<open>The registry key of a persisted device: \<open>`db_${deviceData.id}`\<close>.\<close>

definition dbKey_of :: "deviceData \<Rightarrow> string" where
  "dbKey_of d = ''db_'' @ string_of_nat (device_id d)"

text \<open>
  \<open>spawnDeviceFromDatabase(deviceData)\<close> returns the clone, or null after queueing the
  device when no interactable mesh has a name that contains the mesh identifier.
  \<open>templateMesh.clone()\<close> makes a new object that shares the geometry and the material of
  its source and copies its children; the material is then cloned twice, once for the
  clone and once for the snapshot \<open>userData.originalMat\<close>. The locale formatting of the
  maintenance date is left out: the date string is carried as it is.
  \<^verbatim>\<open>
  function spawnDeviceFromDatabase(deviceData) {
    const meshIdentifier = deviceData.product.mesh_identifier;
    const templateMesh = interactableMeshes.find(m => m.name.includes(meshIdentifier));
    if (!templateMesh) {
      console.warn(`No 3D model found for ${meshIdentifier}, will spawn when GLB loads`);
      if (!window.pendingDatabaseDevices) window.pendingDatabaseDevices = [];
      window.pendingDatabaseDevices.push(deviceData);
      return null;
    }
    const clone = templateMesh.clone();
    clone.position.set(deviceData.position_x, deviceData.position_y, deviceData.position_z);
    if (deviceData.rotation_y) {
      clone.rotation.y = deviceData.rotation_y * (Math.PI / 180);
    }
    const dbKey = `db_${deviceData.id}`;
    clone.name = dbKey;
    if (clone.material) {
      const clonedMaterial = clone.material.clone();
      clone.material = clonedMaterial;
      clone.userData.originalMat = clonedMaterial.clone(); // Store a copy for reset
      clone.material.clippingPlanes = [floorPlane];
    }
    DEVICE_DB[dbKey] = { db_id: deviceData.id, name: deviceData.product.name, ...,
      warrantyExpiry: deviceData.warranty_expiry };
    clone.userData.dbKey = dbKey;
    interactableMeshes.push(clone);
    scene.add(clone);  // Add to scene
    addWarrantyIndicator(clone, deviceData.warranty_expiry);
    console.log(`Spawned ...`);
    return clone;
  }
  \<close>
\<close>

definition device_of :: "deviceData \<Rightarrow> device" where
  "device_of d =
     \<lparr>db_id = Some (device_id d),
      dev_name = product_name (product d),
      dev_type = product_type (product d),
      manufacturer = product_manufacturer (product d),
      serial = serial_number d,
      health = health_score d,
      lastMaintenance = (case last_maintenance d of None \<Rightarrow> ''N/A'' | Some t \<Rightarrow> t),
      location = ''Floor '' @ string_of_nat (floor_number d),
      dev_notes = (case device_notes d of
                     None \<Rightarrow> description (product d)
                   | Some n \<Rightarrow> if n = [] then description (product d) else n),
      warrantyExpiry = warranty_expiry d\<rparr>"

definition spawnDeviceFromDatabase :: "deviceData \<Rightarrow> state \<Rightarrow> obj_id option \<times> state" where
  "spawnDeviceFromDatabase d s =
     (let meshIdentifier = mesh_identifier (product d)
      in case find_mesh (\<lambda>m. includes_str (name m) meshIdentifier) s of
           None \<Rightarrow>
             (None,
              s\<lparr>console := console s @ [NoModelFound meshIdentifier],
                pendingDatabaseDevices :=
                  Some ((case pendingDatabaseDevices s of None \<Rightarrow> [] | Some q \<Rightarrow> q) @ [d])\<rparr>)
         | Some (t, templateMesh) \<Rightarrow>
             let c = next_id s;
                 dbKey' = dbKey_of d;
                 clone0 = templateMesh
                   \<lparr>position := \<lparr>vx = position_x d, vy = position_y d, vz = position_z d\<rparr>,
                    rotation_y := (case device_rotation_y d of
                                     None \<Rightarrow> rotation_y templateMesh
                                   | Some r \<Rightarrow> if r = 0 then rotation_y templateMesh
                                               else r * (pi / 180)),
                    name := dbKey',
                    parent := None\<rparr>;
                 clone1 = (case material clone0 of
                             None \<Rightarrow> clone0
                           | Some mat \<Rightarrow>
                               let clonedMaterial = clone_material (c + 1) (floorPlane_constant s) mat
                               in clone0
                                    \<lparr>material := Some (clonedMaterial\<lparr>clippingPlanes := [FloorPlane]\<rparr>),
                                     originalMat := Some (clone_material (c + 2)
                                                      (floorPlane_constant s) clonedMaterial)\<rparr>);
                 clone2 = clone1\<lparr>dbKey := Some dbKey', parent := Some Scene\<rparr>;
                 s1 = s\<lparr>DEVICE_DB := db_set dbKey' (device_of d) (DEVICE_DB s),
                        heap := (heap s)(c \<mapsto> clone2),
                        interactableMeshes := interactableMeshes s @ [c],
                        scene_children := scene_children s @ [c],
                        next_id := c + 3\<rparr>;
                 s2 = addWarrantyIndicator c (warranty_expiry d) s1
             in (Some c, s2\<lparr>console := console s2 @ [Spawned (product_name (product d))]\<rparr>))"

text \<open>\<open>devices.forEach(device => spawnDeviceFromDatabase(device))\<close>\<close>

fun spawn_all :: "deviceData list \<Rightarrow> state \<Rightarrow> state" where
  "spawn_all [] s = s"
| "spawn_all (d # ds) s = spawn_all ds (snd (spawnDeviceFromDatabase d s))"

text \<open>
  The end of the asset loader's callback. \<open>forEach\<close> visits the entries the array had
  when the loop began: an entry pushed by a call inside the loop is not visited, and the
  assignment after the loop discards it.
  \<^verbatim>\<open>
  if (window.pendingDatabaseDevices) {
    window.pendingDatabaseDevices.forEach(deviceData => {
      spawnDeviceFromDatabase(deviceData);
    });
    window.pendingDatabaseDevices = [];
  }
  \<close>
\<close>

definition drain_pending :: "state \<Rightarrow> state" where
  "drain_pending s =
     (case pendingDatabaseDevices s of
        None \<Rightarrow> s
      | Some q \<Rightarrow> (spawn_all q s)\<lparr>pendingDatabaseDevices := Some []\<rparr>)"

section \<open>Asset loading\<close>

fun counter_set :: "string \<Rightarrow> nat \<Rightarrow> (string \<times> nat) list \<Rightarrow> (string \<times> nat) list" where
  "counter_set k v [] = [(k, v)]"
| "counter_set k v (p # ps) = (if fst p = k then (k, v) # ps else p # counter_set k v ps)"

definition string_of_int :: "int \<Rightarrow> string" where
  "string_of_int i = (if i < 0 then CHR ''-'' # string_of_nat (nat (- i)) else string_of_nat (nat i))"

text \<open>
  \<^verbatim>\<open>
  function getDeviceTypeFromMeshName(meshName) {
    for (const type of Object.keys(DEVICE_TEMPLATES)) {
      if (meshName.includes(type)) return type
    }
    return null
  }
  \<close>
\<close>

definition getDeviceTypeFromMeshName :: "string \<Rightarrow> string option" where
  "getDeviceTypeFromMeshName meshName =
     List.find (\<lambda>t. includes_str meshName t) (map fst DEVICE_TEMPLATES)"

text \<open>
  The body of \<open>model.traverse(child => ...)\<close> for one node of the loaded asset, with the
  value \<open>rnd\<close> that \<open>Math.random()\<close> returns for it. Only the meshes whose name contains a
  device type enter the store; the other nodes of the asset are not tracked.
  \<open>child.material.clone()\<close> on a mesh without material throws.
  \<^verbatim>\<open>
  if (!child.isMesh) return
  if (child.material) {
    child.material = child.material.clone()
    child.material.clippingPlanes = [floorPlane]
    child.material.clipShadows = true
  }
  const type = getDeviceTypeFromMeshName(child.name)
  if (type) {
    const dbKey = child.name
    const template = DEVICE_TEMPLATES[type]
    if (!typeCounters[type]) typeCounters[type] = 1;
    const countStr = typeCounters[type].toString().padStart(2, '0');
    const serialNo = `SN-${type.substring(0,3).toUpperCase()}-${countStr}`;
    typeCounters[type]++;
    if (!Object.values(DEVICE_DB).some(d => d.serial === serialNo)) {
      DEVICE_DB[dbKey] = { name: template.name, type: template.type,
        manufacturer: template.manufacturer, serial: serialNo,
        health: Math.floor(Math.random() * 40) + 60, lastMaintenance: "2023-09-15",
        location: `Warehouse Floor ${Math.floor(child.position.y / FLOOR_HEIGHT) + 1}`,
        notes: template.notes };
    }
    child.userData.dbKey = dbKey;
    child.userData.originalMat = child.material.clone();
    interactableMeshes.push(child);
  }
  \<close>
\<close>

definition traverse_child :: "mesh \<times> real \<Rightarrow> state \<Rightarrow> js_error option \<times> state" where
  "traverse_child cr s =
     (let child = fst cr; rnd = snd cr
      in if \<not> isMesh child then (None, s)
         else case getDeviceTypeFromMeshName (name child) of
                None \<Rightarrow> (None, s)
              | Some type \<Rightarrow>
                  if type = [] then (None, s)
                  else case map_of DEVICE_TEMPLATES type of
                    None \<Rightarrow> (Some TypeError, s)
                  | Some template \<Rightarrow>
                      let c = next_id s;
                          dbKey' = name child;
                          count = (case map_of (typeCounters s) type of
                                     None \<Rightarrow> 1
                                   | Some n \<Rightarrow> if n = 0 then 1 else n);
                          countStr = padStart2 (string_of_nat count);
                          serialNo = ''SN-'' @ toUpperCase (take 3 type) @ ''-'' @ countStr;
                          counters = counter_set type (Suc count) (typeCounters s);
                          db = (if \<not> list_ex (\<lambda>p. serial (snd p) = serialNo) (DEVICE_DB s) then
                                  db_set dbKey'
                                    \<lparr>db_id = None, dev_name = t_name template, dev_type = t_type template,
                                     manufacturer = t_manufacturer template, serial = serialNo,
                                     health = Fin (of_int (\<lfloor>rnd * 40\<rfloor> + 60)),
                                     lastMaintenance = ''2023-09-15'',
                                     location = ''Warehouse Floor '' @
                                       string_of_int (\<lfloor>vy (position child) / FLOOR_HEIGHT s\<rfloor> + 1),
                                     dev_notes = t_notes template, warrantyExpiry = None\<rparr>
                                    (DEVICE_DB s)
                                else DEVICE_DB s);
                          s1 = s\<lparr>typeCounters := counters, DEVICE_DB := db\<rparr>
                      in case material child of
                           None \<Rightarrow> (Some TypeError, s1)
                         | Some mat \<Rightarrow>
                             let mat1 = (clone_material (c + 1) (floorPlane_constant s) mat)
                                          \<lparr>clippingPlanes := [FloorPlane], clipShadows := True\<rparr>;
                                 child1 = child\<lparr>material := Some mat1, dbKey := Some dbKey',
                                            originalMat := Some (clone_material (c + 2)
                                                             (floorPlane_constant s) mat1),
                                            parent := Some Model\<rparr>
                             in (None,
                                 s1\<lparr>heap := (heap s1)(c \<mapsto> child1),
                                    interactableMeshes := interactableMeshes s1 @ [c],
                                    next_id := c + 3\<rparr>))"

fun traverse :: "(mesh \<times> real) list \<Rightarrow> state \<Rightarrow> js_error option \<times> state" where
  "traverse [] s = (None, s)"
| "traverse (cr # crs) s =
     (case traverse_child cr s of
        (Some e, s') \<Rightarrow> (Some e, s')
      | (None, s') \<Rightarrow> traverse crs s')"

text \<open>
  \<open>loadWarehouseFromDatabase()\<close> is asynchronous: called from the loader's callback it runs
  up to its first \<open>await\<close> and the rest runs in a later task, once the Persistence Service
  has answered. \<open>stored\<close> is \<open>localStorage.getItem('currentWarehouseId')\<close>.
\<close>

definition loadWarehouseFromDatabase_start :: "string option \<Rightarrow> state \<Rightarrow> state" where
  "loadWarehouseFromDatabase_start stored s =
     (let s1 = s\<lparr>CURRENT_WAREHOUSE_ID := stored\<rparr>
      in case stored of
           None \<Rightarrow> s1\<lparr>console := console s1 @ [NoWarehouseId]\<rparr>
         | Some w \<Rightarrow> if w = [] then s1\<lparr>console := console s1 @ [NoWarehouseId]\<rparr>
                     else s1\<lparr>console := console s1 @ [LoadingWarehouse w]\<rparr>)"

text \<open>
  The callback of \<open>loader.load('/Final.glb', gltf => ...)\<close>, given the nodes of the asset
  in traversal order.
\<close>

definition loader_onLoad :: "(mesh \<times> real) list \<Rightarrow> string option \<Rightarrow> state \<Rightarrow> js_error option \<times> state" where
  "loader_onLoad nodes stored s =
     (case traverse nodes s of
        (Some e, s') \<Rightarrow> (Some e, s')
      | (None, s1) \<Rightarrow>
          let s2 = s1\<lparr>console := console s1 @ [LoadedFromGLB (length (interactableMeshes s1))]\<rparr>;
              s3 = loadWarehouseFromDatabase_start stored s2
          in (None, drain_pending s3))"

section \<open>Sync gateway\<close>

text \<open>
  The answer of the Persistence Service to a request is a parameter: a 2xx response, another
  response, or a rejected \<open>fetch\<close>. Each function awaits the answer; the model runs a
  handler from its start to its end with the answer given, that is, with no other event
  handled while it is suspended.
  \<^verbatim>\<open>
  async function saveDevicePosition(deviceId, x, y, z, rotation = 0) {
    try {
      const response = await fetch(`${API_URL}/devices/${deviceId}`, { method: 'PUT', ... });
      if (!response.ok) throw new Error('Failed to save position');
      console.log(`Saved position for device ${deviceId}`);
    } catch (error) {
      console.error('Failed to save device position:', error);
    }
  }
  \<close>
  The function returns \<open>undefined\<close> on every path: its result is the state alone.
\<close>

definition saveDevicePosition :: "nat \<Rightarrow> real \<Rightarrow> real \<Rightarrow> real \<Rightarrow> real \<Rightarrow> fetch_outcome \<Rightarrow> state \<Rightarrow> state" where
  "saveDevicePosition deviceId x y z rotation resp s =
     (if resp = HttpOk then s\<lparr>console := console s @ [SavedPosition deviceId]\<rparr>
      else s\<lparr>console := console s @ [FailedToSavePosition]\<rparr>)"

text \<open>
  \<^verbatim>\<open>
  async function updateDeviceHealth(deviceId, healthScore, status) {
    try {
      await fetch(`${API_URL}/devices/${deviceId}`, { method: 'PUT', ... });
    } catch (error) {
      console.error('Failed to update device health:', error);
    }
  }
  \<close>
\<close>

definition updateDeviceHealth :: "nat \<Rightarrow> jsnum \<Rightarrow> string \<Rightarrow> fetch_outcome \<Rightarrow> state \<Rightarrow> state" where
  "updateDeviceHealth deviceId healthScore st resp s =
     (if resp = NetworkFailure then s\<lparr>console := console s @ [FailedToUpdateHealth]\<rparr> else s)"

text \<open>
  \<^verbatim>\<open>
  async function deleteDevice(deviceId) {
    try {
      const response = await fetch(`${API_URL}/devices/${deviceId}`, { method: 'DELETE' });
      if (!response.ok) throw new Error('Failed to delete device');
      console.log(`Deleted device ${deviceId}`);
      return true;
    } catch (error) {
      console.error('Failed to delete device:', error);
      return false;
    }
  }
  \<close>
\<close>

definition deleteDevice :: "nat \<Rightarrow> fetch_outcome \<Rightarrow> state \<Rightarrow> bool \<times> state" where
  "deleteDevice deviceId resp s =
     (if resp = HttpOk then (True, s\<lparr>console := console s @ [DeletedDevice deviceId]\<rparr>)
      else (False, s\<lparr>console := console s @ [FailedToDeleteDevice]\<rparr>))"

subsection \<open>Deleting the selected device\<close>

text \<open>
  The part of the delete handler that follows the remote call (lines 1439 to 1485): the
  panel is hidden, the selection cleared, the mesh taken out of \<open>interactableMeshes\<close> and
  its entry out of \<open>DEVICE_DB\<close>; a 400 ms fade-out tween is started whose \<open>onComplete\<close>
  calls \<open>completeMeshDeletion\<close>, and the success alert is scheduled with \<open>setTimeout\<close>.
\<close>

definition remove_locally :: "obj_id \<Rightarrow> device \<Rightarrow> state \<Rightarrow> state" where
  "remove_locally i data s =
     (let s1 = (hideInfoPanel s)\<lparr>selectedMesh := None\<rparr>;
          s2 = s1\<lparr>interactableMeshes := remove1 i (interactableMeshes s1)\<rparr>
      in case heap s2 i of
           None \<Rightarrow> s2
         | Some meshToDelete \<Rightarrow>
             let s3 = s2\<lparr>DEVICE_DB := db_delete (key_of (dbKey meshToDelete)) (DEVICE_DB s2)\<rparr>;
                 s4 = (case material meshToDelete of
                         None \<Rightarrow> s3
                       | Some mat \<Rightarrow>
                           s3\<lparr>heap := (heap s3)(i \<mapsto>
                                meshToDelete\<lparr>material := Some (mat\<lparr>transparent := True\<rparr>)\<rparr>)\<rparr>);
                 s5 = s4\<lparr>tweens := tweens s4 @ [(next_id s4, FadeOut i)],
                        next_id := Suc (next_id s4)\<rparr>;
                 deviceType = (if truthy_id (db_id data) then ''database device''
                               else ''template device'')
             in s5\<lparr>console := console s5 @ [Deleting deviceType (serial data)],
                   timeouts := timeouts s5 @ [RemovedSuccessfully deviceType (serial data)]\<rparr>)"

text \<open>
  The click handler of \<open>deleteDeviceBtn\<close>; \<open>confirmDelete\<close> is the user's answer to the
  confirmation dialogue.
  \<^verbatim>\<open>
  if (!state3D.selectedMesh) return;
  const data = DEVICE_DB[state3D.selectedMesh.userData.dbKey];
  if (!data) {
    alert('Cannot delete this device - no device information found.');
    return;
  }
  const confirmDelete = confirm(...);
  if (!confirmDelete) return;
  const meshToDelete = state3D.selectedMesh;
  if (data.db_id) {
    const success = await deleteDevice(data.db_id);
    if (!success) {
      alert('Failed to delete device from database. Please try again.');
      return;
    }
  } else {
    console.log(`Removing GLB template device: ${data.serial}`);
  }
  ...
  \<close>
\<close>

definition deleteDeviceBtn_click :: "bool \<Rightarrow> fetch_outcome \<Rightarrow> state \<Rightarrow> state" where
  "deleteDeviceBtn_click confirmDelete resp s =
     (case selectedMesh s of
        None \<Rightarrow> s
      | Some i \<Rightarrow>
          (case heap s i of
             None \<Rightarrow> s
           | Some m \<Rightarrow>
               (case db_lookup (DEVICE_DB s) (key_of (dbKey m)) of
                  None \<Rightarrow> s\<lparr>alerts := alerts s @ [CannotDeleteNoInfo]\<rparr>
                | Some data \<Rightarrow>
                    if \<not> confirmDelete then s
                    else (case db_id data of
                            None \<Rightarrow>
                              remove_locally i data
                                (s\<lparr>console := console s @ [RemovingTemplateDevice (serial data)]\<rparr>)
                          | Some n \<Rightarrow>
                              if n = 0 then
                                remove_locally i data
                                  (s\<lparr>console := console s @ [RemovingTemplateDevice (serial data)]\<rparr>)
                              else
                                (case deleteDevice n resp s of
                                   (False, s1) \<Rightarrow> s1\<lparr>alerts := alerts s1 @ [DeleteFailed]\<rparr>
                                 | (True, s1) \<Rightarrow> remove_locally i data s1)))))"

text \<open>
  \<open>completeMeshDeletion(mesh)\<close>: disposes the geometry, the textures and the material of
  the mesh, disposes and removes its children, and detaches it from its parent and from the
  scene. Materials are single objects here, so the array branches are not taken.
\<close>

definition textures_of :: "material \<Rightarrow> resource list" where
  "textures_of mat =
     (case map_tex mat of None \<Rightarrow> [] | Some t \<Rightarrow> [Texture t]) @
     (case normalMap mat of None \<Rightarrow> [] | Some t \<Rightarrow> [Texture t]) @
     (case emissiveMap mat of None \<Rightarrow> [] | Some t \<Rightarrow> [Texture t])"

definition completeMeshDeletion :: "obj_id \<Rightarrow> state \<Rightarrow> state" where
  "completeMeshDeletion i s =
     (case heap s i of
        None \<Rightarrow> s
      | Some mesh \<Rightarrow>
          let d1 = (case geometry mesh of None \<Rightarrow> [] | Some g \<Rightarrow> [Geometry g]);
              d2 = (case material mesh of
                      None \<Rightarrow> []
                    | Some mat \<Rightarrow> textures_of mat @ [Material (mat_id mat)]);
              d3 = concat (map (\<lambda>r. [Geometry (ring_geometry r), Material (ring_material r)])
                            (children mesh))
          in s\<lparr>disposed := disposed s @ d1 @ d2 @ d3,
                heap := (heap s)(i \<mapsto> mesh\<lparr>children := [], parent := None\<rparr>),
                scene_children := removeAll i (scene_children s),
                console := console s @ [MeshRemoved]\<rparr>)"

text \<open>
  The fade-out tween reaching its end in a later animation frame (\<open>TWEEN.update()\<close> in
  \<open>animate\<close>): its last update sets opacity 0 and scale 0.1, it leaves the registry of
  running tweens, and \<open>onComplete\<close> runs.
\<close>

definition fadeOut_complete :: "tween_id \<Rightarrow> state \<Rightarrow> state" where
  "fadeOut_complete t s =
     (case map_of (tweens s) t of
        Some (FadeOut i) \<Rightarrow>
          (case heap s i of
             None \<Rightarrow> s
           | Some m \<Rightarrow>
               let m1 = m\<lparr>material := map_option (\<lambda>mat. mat\<lparr>opacity := 0\<rparr>) (material m),
                          mesh_scale := \<lparr>vx = 0.1, vy = 0.1, vz = 0.1\<rparr>\<rparr>
               in completeMeshDeletion i ((stop_tween t s)\<lparr>heap := (heap s)(i \<mapsto> m1)\<rparr>))
      | _ \<Rightarrow> s)"

subsection \<open>Updating the position of the selected device\<close>

text \<open>
  The click handler of \<open>updatePositionBtn\<close>. \<open>newX\<close>, \<open>newY\<close>, \<open>newZ\<close> are the
  results of \<open>parseFloat\<close> on the three inputs: \<open>None\<close> for NaN, a finite number otherwise.
  \<^verbatim>\<open>
  if (!state3D.selectedMesh) return;
  const data = DEVICE_DB[state3D.selectedMesh.userData.dbKey];
  const newX = parseFloat(...); const newY = parseFloat(...); const newZ = parseFloat(...);
  if (isNaN(newX) || isNaN(newY) || isNaN(newZ)) {
    alert('Please enter valid numbers for all coordinates.');
    return;
  }
  // Update mesh position
  state3D.selectedMesh.position.set(newX, newY, newZ);
  // Save to database if it's a database device
  if (data && data.db_id) {
    await saveDevicePosition(data.db_id, newX, newY, newZ,
      state3D.selectedMesh.rotation.y * (180 / Math.PI));
    alert(`Position updated and saved to database: ...`);
  } else {
    alert(`Position updated in 3D view: ... This is a template device - position not saved to database. ...`);
  }
  \<close>
\<close>

definition updatePositionBtn_click :: "real option \<Rightarrow> real option \<Rightarrow> real option \<Rightarrow> fetch_outcome \<Rightarrow> state \<Rightarrow> state" where
  "updatePositionBtn_click newX newY newZ resp s =
     (case selectedMesh s of
        None \<Rightarrow> s
      | Some i \<Rightarrow>
          (case heap s i of
             None \<Rightarrow> s
           | Some m \<Rightarrow>
               (case (newX, newY, newZ) of
                  (Some x, Some y, Some z) \<Rightarrow>
                    let data = db_lookup (DEVICE_DB s) (key_of (dbKey m));
                        s1 = s\<lparr>heap := (heap s)(i \<mapsto> m\<lparr>position := \<lparr>vx = x, vy = y, vz = z\<rparr>\<rparr>)\<rparr>;
                        template = s1\<lparr>alerts := alerts s1 @
                                      [PositionUpdatedTemplate (toFixed2 x) (toFixed2 y) (toFixed2 z)]\<rparr>
                    in (case data of
                          None \<Rightarrow> template
                        | Some d \<Rightarrow>
                            (case db_id d of
                               None \<Rightarrow> template
                             | Some n \<Rightarrow>
                                 if n = 0 then template
                                 else
                                   let s2 = saveDevicePosition n x y z
                                              (rotation_y m * (180 / pi)) resp s1
                                   in s2\<lparr>alerts := alerts s2 @
                                          [PositionSavedToDatabase (toFixed2 x) (toFixed2 y) (toFixed2 z)]\<rparr>))
                | _ \<Rightarrow> s\<lparr>alerts := alerts s @ [InvalidCoordinates]\<rparr>)))"

section \<open>Floor filter\<close>

definition HOME_POS :: vec3 where
  "HOME_POS = \<lparr>vx = 30, vy = 30, vz = 40\<rparr>"

definition HOME_TARGET :: vec3 where
  "HOME_TARGET = \<lparr>vx = 0, vy = 15, vz = 0\<rparr>"

text \<open>
  The \<open>change\<close> handler of the floor selector, for the option the user chose; the element
  holds that option when the handler runs.
  \<^verbatim>\<open>
  const floorValue = e.target.value;
  if (floorValue === 'all') {
    floorPlane.constant = 1000; // Very high value = no clipping
    controls.setLookAt(HOME_POS.x, HOME_POS.y, HOME_POS.z, HOME_TARGET.x, HOME_TARGET.y, HOME_TARGET.z, true);
  } else {
    const floorNum = parseInt(floorValue);
    const baseHeight = (floorNum - 1) * FLOOR_HEIGHT;
    const targetY = baseHeight + EYE_LEVEL;
    floorPlane.constant = floorNum * FLOOR_HEIGHT;
    controls.setLookAt(8, targetY, 8, 0, targetY, 0, true);
  }
  \<close>
\<close>

definition floorSelect_change :: "floor_choice \<Rightarrow> state \<Rightarrow> state" where
  "floorSelect_change floorValue s0 =
     (let s = s0\<lparr>floorSelect_value := Some floorValue\<rparr>
      in case floorValue of
           All \<Rightarrow> s\<lparr>floorPlane_constant := 1000,
                     camera_position := HOME_POS, camera_target := HOME_TARGET\<rparr>
         | Level floorNum \<Rightarrow>
             let baseHeight = (of_int floorNum - 1) * FLOOR_HEIGHT s;
                 targetY = baseHeight + EYE_LEVEL
             in s\<lparr>floorPlane_constant := of_int floorNum * FLOOR_HEIGHT s,
                   camera_position := \<lparr>vx = 8, vy = targetY, vz = 8\<rparr>,
                   camera_target := \<lparr>vx = 0, vy = targetY, vz = 0\<rparr>\<rparr>)"

text \<open>
  The floor filter of \<open>renderNodeView\<close>: the registry entries drawn in the 2D view.
  \<^verbatim>\<open>
  const currentFloor = parseInt(document.getElementById('floorSelect')?.value) || 1;
  ...
  const currentFloorDevices = devices.filter(d => {
    const dbDevice = interactableMeshes.find(m => m.userData.dbKey === d.key);
    if (!dbDevice) return false;
    const deviceFloor = Math.floor(dbDevice.position.y / FLOOR_HEIGHT) + 1;
    return deviceFloor === currentFloor;
  });
  \<close>
\<close>

definition currentFloorDevices :: "state \<Rightarrow> (string \<times> device) list" where
  "currentFloorDevices s =
     (let currentFloor = parseInt_or_1 (floorSelect_value s)
      in filter (\<lambda>d. case find_mesh (\<lambda>m. dbKey m = Some (fst d)) s of
                        None \<Rightarrow> False
                      | Some (i, dbDevice) \<Rightarrow>
                          \<lfloor>vy (position dbDevice) / FLOOR_HEIGHT s\<rfloor> + 1 = currentFloor)
           (DEVICE_DB s))"

section \<open>Coordinate projector and 2D viewport\<close>

text \<open>
  The projection written twice in the source, in \<open>renderNodeView\<close> and in
  \<open>getNodeAtPosition\<close>:
  \<^verbatim>\<open>
  const scale2d = 30; // pixels per meter
  const x2d = mesh.position.x * scale2d;
  const z2d = -mesh.position.z * scale2d; // Flip Z for top-down view
  \<close>
\<close>

definition scale2d :: real where
  "scale2d = 30"

definition toTopDown :: "vec3 \<Rightarrow> real \<times> real" where
  "toTopDown p = (vx p * scale2d, - vz p * scale2d)"

text \<open>
  Where a point of the projected plane lands on the canvas: \<open>renderNodeView\<close> draws after
  \<open>nodeCtx.translate(nodeView.offsetX, nodeView.offsetY)\<close> and
  \<open>nodeCtx.scale(nodeView.scale, nodeView.scale)\<close>.
\<close>

definition to_canvas :: "nodeView \<Rightarrow> real \<times> real \<Rightarrow> real \<times> real" where
  "to_canvas nv q = (offsetX nv + scale nv * fst q, offsetY nv + scale nv * snd q)"

text \<open>
  The inverse used by hit-testing, which the source calls the world coordinates:
  \<^verbatim>\<open>
  const worldX = (mouseX - nodeView.offsetX) / nodeView.scale;
  const worldY = (mouseY - nodeView.offsetY) / nodeView.scale;
  \<close>
\<close>

definition toWorld :: "nodeView \<Rightarrow> real \<times> real \<Rightarrow> real \<times> real" where
  "toWorld nv mouse = ((fst mouse - offsetX nv) / scale nv, (snd mouse - offsetY nv) / scale nv)"

text \<open>
  \<open>getNodeAtPosition(e)\<close> for the mouse position relative to the canvas: the first entry
  of the registry, in its order, that has a mesh on the current floor closer than 20 to
  the mouse in the projected plane.
  \<^verbatim>\<open>
  for (const [key, device] of Object.entries(DEVICE_DB)) {
    const mesh = interactableMeshes.find(m => m.userData.dbKey === key);
    if (!mesh) continue;
    const deviceFloor = Math.floor(mesh.position.y / FLOOR_HEIGHT) + 1;
    if (deviceFloor !== currentFloor) continue;
    const x2d = mesh.position.x * scale2d;
    const z2d = -mesh.position.z * scale2d;
    const distance = Math.sqrt((worldX - x2d) ** 2 + (worldY - z2d) ** 2);
    if (distance < 20) { return key; }
  }
  return null;
  \<close>
\<close>

definition getNodeAtPosition :: "real \<times> real \<Rightarrow> state \<Rightarrow> string option" where
  "getNodeAtPosition mouse s =
     (let w = toWorld (node_view s) mouse;
          currentFloor = parseInt_or_1 (floorSelect_value s)
      in map_option fst
           (List.find
              (\<lambda>d. case find_mesh (\<lambda>m. dbKey m = Some (fst d)) s of
                      None \<Rightarrow> False
                    | Some (i, mesh) \<Rightarrow>
                        \<lfloor>vy (position mesh) / FLOOR_HEIGHT s\<rfloor> + 1 = currentFloor \<and>
                        sqrt ((fst w - fst (toTopDown (position mesh)))\<^sup>2 +
                              (snd w - snd (toTopDown (position mesh)))\<^sup>2) < 20)
              (DEVICE_DB s)))"

text \<open>
  The \<open>wheel\<close> handler of the canvas (zoom) and the \<open>mousemove\<close> handler while dragging
  (pan). Both write the viewport only.
  \<^verbatim>\<open>
  if (current2DView !== 'node') return;
  const delta = e.deltaY > 0 ? 0.9 : 1.1;
  const newScale = nodeView.scale * delta;
  if (newScale >= nodeView.minScale && newScale <= nodeView.maxScale) {
    nodeView.scale = newScale;
    renderNodeView();
  }
  \<close>
\<close>

definition nodeCanvas_wheel :: "real \<Rightarrow> state \<Rightarrow> state" where
  "nodeCanvas_wheel deltaY s =
     (if current2DView s \<noteq> ViewNode then s
      else let nv = node_view s;
               delta = (if deltaY > 0 then 0.9 else 1.1);
               newScale = scale nv * delta
           in if newScale \<ge> minScale nv \<and> newScale \<le> maxScale nv
              then s\<lparr>node_view := nv\<lparr>scale := newScale\<rparr>\<rparr>
              else s)"

definition nodeCanvas_mousemove_drag :: "real \<Rightarrow> real \<Rightarrow> state \<Rightarrow> state" where
  "nodeCanvas_mousemove_drag clientX clientY s =
     (if current2DView s \<noteq> ViewNode \<or> \<not> isDragging (node_view s) then s
      else let nv = node_view s
           in s\<lparr>node_view := nv\<lparr>offsetX := clientX - dragStartX nv,
                                  offsetY := clientY - dragStartY nv\<rparr>\<rparr>)"

text \<open>The viewport the program starts with.\<close>

definition nodeView_init :: nodeView where
  "nodeView_init =
     \<lparr>offsetX = 0, offsetY = 0, scale = 1, isDragging = False, dragStartX = 0,
      dragStartY = 0, hoveredNode = None, minScale = 0.3, maxScale = 3\<rparr>"

section \<open>Predicates on the selection state\<close>

text \<open>The running tweens that are highlight animations, in the order they were started.\<close>

definition is_blink :: "tween \<Rightarrow> bool" where
  "is_blink t = (case t of Blink i n \<Rightarrow> True | _ \<Rightarrow> False)"

definition blink_tweens :: "state \<Rightarrow> (tween_id \<times> tween) list" where
  "blink_tweens s = filter (\<lambda>p. is_blink (snd p)) (tweens s)"

text \<open>
  A mesh that \<open>select3DMesh\<close> can highlight: it has a material, a material snapshot and
  a registry entry under its key.
\<close>

definition selectable :: "state \<Rightarrow> obj_id \<Rightarrow> bool" where
  "selectable s i =
     (case heap s i of
        None \<Rightarrow> False
      | Some m \<Rightarrow> material m \<noteq> None \<and> originalMat m \<noteq> None
                 \<and> db_lookup (DEVICE_DB s) (key_of (dbKey m)) \<noteq> None)"

text \<open>
  What holds of the selection state between two events: the running highlight animations
  are exactly the one that \<open>state3D.blinkTween\<close> refers to, if any, and the running tweens
  are different objects whose identifiers have all been handed out already.
\<close>

definition selection_inv :: "state \<Rightarrow> bool" where
  "selection_inv s =
     (map fst (blink_tweens s) = (case blinkTween s of None \<Rightarrow> [] | Some t \<Rightarrow> [t])
      \<and> list_all (\<lambda>p. fst p < next_id s) (tweens s)
      \<and> distinct (map fst (tweens s)))"

section \<open>Predicates on the instance pool\<close>



text \<open>Object identifiers are handed out in increasing order: those in use are below \<open>next_id\<close>.\<close>

definition pool_wf :: "state \<Rightarrow> bool" where
  "pool_wf s = list_all (\<lambda>i. i < next_id s) (interactableMeshes s)"

section \<open>The initial state and an example scene\<close>

text \<open>The values the module-level variables have when \<open>main.js\<close> has been evaluated.\<close>

definition init_state :: state where
  "init_state =
     \<lparr>DEVICE_DB = [], interactableMeshes = [], heap = Map.empty, scene_children = [],
      selectedMesh = None, blinkTween = None, tweens = [],
      floorPlane_constant = 1000, FLOOR_HEIGHT = 6.0,
      floorSelect_options = [], floorSelect_value = None,
      camera_position = HOME_POS, camera_target = HOME_TARGET,
      pendingDatabaseDevices = None, typeCounters = [], CURRENT_WAREHOUSE_ID = None,
      panel = \<lparr>active = False, uiName = [], uiSerial = [], uiHealth = NaN, uiDate = [],
                uiStatusText = [], uiStatusColor = [], posInputs = None, warrantySection = None\<rparr>,
      node_view = nodeView_init, current2DView = View3D,
      disposed = [], alerts = [], timeouts = [], console = [], next_id = 0, clock = 0\<rparr>"

text \<open>
  A scene to run the operations on: one mesh of the asset, whose name contains the type
  tag \<open>Galaxy_VL\<close>, and two persisted devices of that type. The first device is on floor 3
  of a building with 6 m floors, has health 45 and a warranty that ends ten days after the
  state's clock; the second has no warranty date.
\<close>

definition asset_node :: mesh where
  "asset_node =
     \<lparr>name = ''Galaxy_VL_A'', isMesh = True,
      position = \<lparr>vx = 0, vy = 0, vz = 0\<rparr>, rotation_y = 0,
      mesh_scale = \<lparr>vx = 1, vy = 1, vz = 1\<rparr>,
      geometry = Some 1000,
      material = Some \<lparr>mat_id = 1001, emissive = 0, emissiveIntensity = 1, opacity = 1,
                        transparent = False, clippingPlanes = [], clipShadows = False,
                        map_tex = Some 1002, normalMap = None, emissiveMap = None\<rparr>,
      dbKey = None, originalMat = None, children = [], parent = Some Model\<rparr>"

definition ups_1 :: deviceData where
  "ups_1 =
     \<lparr>device_id = 1,
      product = \<lparr>mesh_identifier = ''Galaxy_VL'', product_name = ''Galaxy VL UPS'',
                  product_type = ''UPS'', product_manufacturer = ''Schneider Electric'',
                  description = ''UPS''\<rparr>,
      position_x = 1, position_y = 13, position_z = 2, device_rotation_y = None,
      serial_number = ''SE-0001'', health_score = Fin 45, last_maintenance = None,
      floor_number = 3, device_notes = None,
      warranty_expiry = Some (Valid (10 * 86400000))\<rparr>"

definition ups_2 :: deviceData where
  "ups_2 =
     \<lparr>device_id = 2,
      product = \<lparr>mesh_identifier = ''Galaxy_VL'', product_name = ''Galaxy VL UPS'',
                  product_type = ''UPS'', product_manufacturer = ''Schneider Electric'',
                  description = ''UPS''\<rparr>,
      position_x = 4, position_y = 1, position_z = 5, device_rotation_y = Some 90,
      serial_number = ''SE-0002'', health_score = Fin 90, last_maintenance = Some ''2024-01-01'',
      floor_number = 1, device_notes = None,
      warranty_expiry = None\<rparr>"


text \<open>The scene after the asset has loaded and both devices have been spawned.\<close>

definition scene_loaded :: state where
  "scene_loaded = snd (loader_onLoad [(asset_node, 0.5)] None init_state)"

definition scene_two :: state where
  "scene_two = spawn_all [ups_1, ups_2] scene_loaded"


text \<open>The centre of a mesh's bounding box, for a mesh whose geometry is centred on its origin.\<close>

definition center_at_position :: "mesh \<Rightarrow> vec3" where
  "center_at_position m = position m"

text \<open>The scene with the first device selected.\<close>

definition scene_selected :: state where
  "scene_selected = snd (select3DMesh center_at_position 3 scene_two)"

section \<open>The example scene, evaluated\<close>

lemmas eval_defs =
  loader_onLoad_def traverse_child_def init_state_def asset_node_def
  getDeviceTypeFromMeshName_def DEVICE_TEMPLATES_def includes_str_def startsWith_def upt_rec
  Let_def padStart2_def toUpperCase_def upper_char_def digit_char_def string_of_nat.simps
  clone_material_def loadWarehouseFromDatabase_start_def drain_pending_def string_of_int_def
  spawnDeviceFromDatabase_def find_mesh_def meshes_of_def List.map_filter_def ups_1_def
  ups_2_def dbKey_of_def device_of_def addWarrantyIndicator_def ringColor_of_def

lemma scene_two_eq:
  "scene_two =
     \<lparr>DEVICE_DB =
        [(''Galaxy_VL_A'',
          \<lparr>db_id = None, dev_name = ''Galaxy VL UPS'',
           dev_type = ''Uninterruptible Power Supply'',
           manufacturer = ''Schneider Electric'', serial = ''SN-GAL-01'',
           health = Fin 80, lastMaintenance = ''2023-09-15'',
           location = ''Warehouse Floor 1'',
           dev_notes = ''High-efficiency scalable power protection.'',
           warrantyExpiry = None\<rparr>),
         (''db_1'',
          \<lparr>db_id = Some 1, dev_name = ''Galaxy VL UPS'', dev_type = ''UPS'',
           manufacturer = ''Schneider Electric'', serial = ''SE-0001'', health = Fin 45,
           lastMaintenance = ''N/A'', location = ''Floor 3'', dev_notes = ''UPS'',
           warrantyExpiry = Some (Valid 864000000)\<rparr>),
         (''db_2'',
          \<lparr>db_id = Some 2, dev_name = ''Galaxy VL UPS'', dev_type = ''UPS'',
           manufacturer = ''Schneider Electric'', serial = ''SE-0002'', health = Fin 90,
           lastMaintenance = ''2024-01-01'', location = ''Floor 1'', dev_notes = ''UPS'',
           warrantyExpiry = None\<rparr>)],
      interactableMeshes = [0, 3, 9],
      heap =
        [0 \<mapsto>
           \<lparr>name = ''Galaxy_VL_A'', isMesh = True,
            position = \<lparr>vx = 0, vy = 0, vz = 0\<rparr>, rotation_y = 0,
            mesh_scale = \<lparr>vx = 1, vy = 1, vz = 1\<rparr>, geometry = Some 1000,
            material =
              Some \<lparr>mat_id = 1, emissive = 0, emissiveIntensity = 1, opacity = 1,
                    transparent = False, clippingPlanes = [FloorPlane], clipShadows = True,
                    map_tex = Some 1002, normalMap = None, emissiveMap = None\<rparr>,
            dbKey = Some ''Galaxy_VL_A'',
            originalMat =
              Some \<lparr>mat_id = 2, emissive = 0, emissiveIntensity = 1, opacity = 1,
                    transparent = False, clippingPlanes = [PlaneCopy 1000], clipShadows = True,
                    map_tex = Some 1002, normalMap = None, emissiveMap = None\<rparr>,
            children = [], parent = Some Model\<rparr>,
         3 \<mapsto>
           \<lparr>name = ''db_1'', isMesh = True,
            position = \<lparr>vx = 1, vy = 13, vz = 2\<rparr>, rotation_y = 0,
            mesh_scale = \<lparr>vx = 1, vy = 1, vz = 1\<rparr>, geometry = Some 1000,
            material =
              Some \<lparr>mat_id = 4, emissive = 0, emissiveIntensity = 1, opacity = 1,
                    transparent = False, clippingPlanes = [FloorPlane], clipShadows = True,
                    map_tex = Some 1002, normalMap = None, emissiveMap = None\<rparr>,
            dbKey = Some ''db_1'',
            originalMat =
              Some \<lparr>mat_id = 5, emissive = 0, emissiveIntensity = 1, opacity = 1,
                    transparent = False, clippingPlanes = [PlaneCopy 1000], clipShadows = True,
                    map_tex = Some 1002, normalMap = None, emissiveMap = None\<rparr>,
            children =
              [\<lparr>ring_geometry = 6, ring_material = 7, ring_color = 0xf59e0b,
                ring_opacity = 0.6, ring_rotation_x = - pi / 2, ring_position_y = - 0.5\<rparr>],
            parent = Some Scene\<rparr>,
         9 \<mapsto>
           \<lparr>name = ''db_2'', isMesh = True,
            position = \<lparr>vx = 4, vy = 1, vz = 5\<rparr>, rotation_y = pi / 2,
            mesh_scale = \<lparr>vx = 1, vy = 1, vz = 1\<rparr>, geometry = Some 1000,
            material =
              Some \<lparr>mat_id = 10, emissive = 0, emissiveIntensity = 1, opacity = 1,
                    transparent = False, clippingPlanes = [FloorPlane], clipShadows = True,
                    map_tex = Some 1002, normalMap = None, emissiveMap = None\<rparr>,
            dbKey = Some ''db_2'',
            originalMat =
              Some \<lparr>mat_id = 11, emissive = 0, emissiveIntensity = 1, opacity = 1,
                    transparent = False, clippingPlanes = [PlaneCopy 1000], clipShadows = True,
                    map_tex = Some 1002, normalMap = None, emissiveMap = None\<rparr>,
            children = [], parent = Some Scene\<rparr>],
      scene_children = [3, 9], selectedMesh = None, blinkTween = None,
      tweens = [(8, RingPulse 3 6)], floorPlane_constant = 1000, FLOOR_HEIGHT = 6,
      floorSelect_options = [], floorSelect_value = None,
      camera_position = HOME_POS, camera_target = HOME_TARGET,
      pendingDatabaseDevices = None, typeCounters = [(''Galaxy_VL'', 2)],
      CURRENT_WAREHOUSE_ID = None,
      panel = \<lparr>active = False, uiName = [], uiSerial = [], uiHealth = NaN, uiDate = [],
                uiStatusText = [], uiStatusColor = [], posInputs = None, warrantySection = None\<rparr>,
      node_view = nodeView_init, current2DView = View3D, disposed = [],
      alerts = [], timeouts = [],
      console = [LoadedFromGLB 1, NoWarehouseId, Spawned ''Galaxy VL UPS'', Spawned ''Galaxy VL UPS''],
      next_id = 12, clock = 0\<rparr>"
  by (simp add: scene_two_def scene_loaded_def eval_defs numeral_2_eq_2)

lemma scene_two_meshes:
  "map fst (meshes_of scene_two) = [0, 3, 9]"
  by (simp add: scene_two_eq meshes_of_def List.map_filter_def)

section \<open>Properties of the status deriver\<close>

lemma getHealthInfo_Fin:
  "getHealthInfo (Fin x) =
     (if 80 \<le> x then \<lparr>label = ''Healthy'', hex = ''#22c55e'', three = 0x22c55e, cls = ''badge-healthy''\<rparr>
      else if 50 \<le> x then \<lparr>label = ''Warning'', hex = ''#f59e0b'', three = 0xf59e0b, cls = ''badge-warning''\<rparr>
      else \<lparr>label = ''Critical'', hex = ''#ef4444'', three = 0xef4444, cls = ''badge-critical''\<rparr>)"
  by (simp add: getHealthInfo_def)

lemma tier_rank_mono:
  "js_le a b \<Longrightarrow> tier_rank (getHealthInfo a) \<le> tier_rank (getHealthInfo b)"
  by (cases a; cases b) (auto simp: js_le_def getHealthInfo_def tier_rank_def)

text \<open>
  Claim C3. For a health score \<open>x\<close> the tier is Healthy exactly when \<open>80 \<le> x\<close>, Warning
  exactly when \<open>50 \<le> x < 80\<close> and Critical exactly when \<open>x < 50\<close>; a score of 80 is
  Healthy and a score of 79 is Warning; and the tier never gets worse when the score grows:
  whenever \<open>a <= b\<close> holds in JavaScript, the tier of \<open>a\<close> ranks at most the tier of \<open>b\<close>.
\<close>

theorem healthTier_boundaries_monotone:
  "(label (getHealthInfo (Fin x)) = ''Healthy'' \<longleftrightarrow> 80 \<le> x)
   \<and> (label (getHealthInfo (Fin x)) = ''Warning'' \<longleftrightarrow> 50 \<le> x \<and> x < 80)
   \<and> (label (getHealthInfo (Fin x)) = ''Critical'' \<longleftrightarrow> x < 50)
   \<and> label (getHealthInfo (Fin 80)) = ''Healthy''
   \<and> label (getHealthInfo (Fin 79)) = ''Warning''
   \<and> (js_le a b \<longrightarrow> tier_rank (getHealthInfo a) \<le> tier_rank (getHealthInfo b))"
  using tier_rank_mono [of a b] by (simp add: getHealthInfo_Fin)

theorem healthTier_boundaries_monotone_witness:
  "label (getHealthInfo (Fin 45)) = ''Critical''
   \<and> js_le (Fin 45) (Fin 80)
   \<and> tier_rank (getHealthInfo (Fin 45)) \<le> tier_rank (getHealthInfo (Fin 80))"
  using healthTier_boundaries_monotone [of 45 "Fin 45" "Fin 80"]
  by (simp add: js_le_def)

text \<open>
  Claim C10. \<open>getHealthInfo\<close> is total and validates nothing: for every number, finite or
  infinite or NaN, it returns one of its three records; every score below 50, and NaN,
  gives the Critical record, and every score of 80 or more gives the Healthy record.
\<close>

theorem getHealthInfo_total:
  "getHealthInfo score \<in>
     {\<lparr>label = ''Healthy'', hex = ''#22c55e'', three = 0x22c55e, cls = ''badge-healthy''\<rparr>,
      \<lparr>label = ''Warning'', hex = ''#f59e0b'', three = 0xf59e0b, cls = ''badge-warning''\<rparr>,
      \<lparr>label = ''Critical'', hex = ''#ef4444'', three = 0xef4444, cls = ''badge-critical''\<rparr>}
   \<and> (js_lt score (Fin 50) \<or> score = NaN \<longrightarrow>
        getHealthInfo score =
          \<lparr>label = ''Critical'', hex = ''#ef4444'', three = 0xef4444, cls = ''badge-critical''\<rparr>)
   \<and> (js_ge score (Fin 80) \<longrightarrow>
        getHealthInfo score =
          \<lparr>label = ''Healthy'', hex = ''#22c55e'', three = 0x22c55e, cls = ''badge-healthy''\<rparr>)"
  by (cases score) (auto simp: getHealthInfo_def)

theorem getHealthInfo_total_witness:
  "js_lt (Fin (- 5)) (Fin 50) \<and> label (getHealthInfo (Fin (- 5))) = ''Critical''
   \<and> label (getHealthInfo NaN) = ''Critical''
   \<and> js_ge (Fin 150) (Fin 80) \<and> label (getHealthInfo (Fin 150)) = ''Healthy''
   \<and> js_ge PosInf (Fin 80) \<and> label (getHealthInfo PosInf) = ''Healthy''
   \<and> js_lt NegInf (Fin 50) \<and> label (getHealthInfo NegInf) = ''Critical''"
  using getHealthInfo_total [of "Fin (- 5)"] getHealthInfo_total [of NaN]
    getHealthInfo_total [of "Fin 150"] getHealthInfo_total [of PosInf]
    getHealthInfo_total [of NegInf]
  by simp

lemma days_floor:
  "daysRemaining_of (Valid expiry) now = Fin (of_int \<lfloor>real_of_int (expiry - now) / 86400000\<rfloor>)"
proof -
  have "\<lfloor>real_of_int (expiry - now) / real_of_int 86400000\<rfloor> = (expiry - now) div 86400000"
    by (rule floor_divide_of_int_eq)
  then show ?thesis by simp
qed

lemma status_int:
  "status (getWarrantyStatus (Fin (of_int d))) =
     (if d < 0 then ''expired'' else if d < 30 then ''critical''
      else if d < 90 then ''warning'' else ''healthy'')"
  by (simp add: getWarrantyStatus_def)

lemma ring_iff_not_healthy:
  "(ringColor_of days = None) = (status (getWarrantyStatus days) = ''healthy'')"
  by (simp add: ringColor_of_def getWarrantyStatus_def)

lemma ring_color_matches:
  "ringColor_of days = Some c \<Longrightarrow> c = css_value (color (getWarrantyStatus days)) \<and> c \<noteq> 0"
  by (auto simp: ringColor_of_def getWarrantyStatus_def css_value_def hex_digit_def split: if_splits)

lemma indicator_healthy:
  "status (getWarrantyStatus (daysRemaining_of e (clock s))) = ''healthy''
   \<Longrightarrow> addWarrantyIndicator i (Some e) s = s"
  by (simp add: addWarrantyIndicator_def Let_def ring_iff_not_healthy [symmetric])

lemma indicator_ring:
  assumes "heap s i = Some m"
    and "status (getWarrantyStatus (daysRemaining_of e (clock s))) \<noteq> ''healthy''"
  shows "heap (addWarrantyIndicator i (Some e) s) i =
           Some (m\<lparr>children := children m @
             [\<lparr>ring_geometry = next_id s, ring_material = Suc (next_id s),
               ring_color = css_value (color (getWarrantyStatus (daysRemaining_of e (clock s)))),
               ring_opacity = 0.6, ring_rotation_x = - pi / 2, ring_position_y = - 0.5\<rparr>]\<rparr>)"
proof -
  from assms(2) obtain c where c: "ringColor_of (daysRemaining_of e (clock s)) = Some c"
    using ring_iff_not_healthy [of "daysRemaining_of e (clock s)"] by auto
  from ring_color_matches [OF c] assms(1) c show ?thesis
    by (simp add: addWarrantyIndicator_def Let_def)
qed

lemma indicator_pulse:
  assumes "heap s i = Some m"
  shows "tweens (addWarrantyIndicator i (Some e) s) =
           tweens s @ (if js_lt (daysRemaining_of e (clock s)) (Fin 30)
                       then [(next_id s + 2, RingPulse i (next_id s))] else [])"
proof (cases "ringColor_of (daysRemaining_of e (clock s))")
  case None
  then have "\<not> js_lt (daysRemaining_of e (clock s)) (Fin 30)"
    by (auto simp: ringColor_of_def split: if_splits)
  with None show ?thesis by (simp add: addWarrantyIndicator_def Let_def)
next
  case (Some c)
  from ring_color_matches [OF Some] Some assms show ?thesis
    by (simp add: addWarrantyIndicator_def Let_def)
qed

lemma panel_warranty:
  assumes "db_lookup (DEVICE_DB s) k = Some data" and "warrantyExpiry data = Some e"
  shows "warrantySection (panel (showInfoPanel (Some k) s)) =
           Some (WarrantyInfo (truthy_id (db_id data)) e (daysRemaining_of e (clock s))
                   (color (getWarrantyStatus (daysRemaining_of e (clock s)))))"
  using assms by (simp add: showInfoPanel_def key_of_def Let_def split: option.splits prod.splits)

text \<open>
  Claim C7. The days remaining are the floor of the time to the expiry divided by 86400
  seconds. For a whole number \<open>d\<close> of days the warranty tier is expired below 0, critical
  below 30, warning below 90 and healthy otherwise. For a mesh \<open>i\<close> of the store and an
  expiry date \<open>e\<close>, \<open>addWarrantyIndicator\<close> changes nothing when the tier is healthy and
  otherwise attaches one ring whose colour is the colour of the tier; it starts a pulsing
  tween exactly when fewer than 30 days remain; and the information panel of a device with
  that expiry date shows the colour of the same tier.
\<close>

theorem warranty_tier_and_ring:
  assumes "heap s i = Some m"
  shows
    "daysRemaining_of (Valid expiry) now =
       Fin (of_int \<lfloor>real_of_int (expiry - now) / 86400000\<rfloor>)
     \<and> status (getWarrantyStatus (Fin (of_int d))) =
         (if d < 0 then ''expired'' else if d < 30 then ''critical''
          else if d < 90 then ''warning'' else ''healthy'')
     \<and> (status (getWarrantyStatus (daysRemaining_of e (clock s))) = ''healthy'' \<longrightarrow>
          addWarrantyIndicator i (Some e) s = s)
     \<and> (status (getWarrantyStatus (daysRemaining_of e (clock s))) \<noteq> ''healthy'' \<longrightarrow>
          heap (addWarrantyIndicator i (Some e) s) i =
            Some (m\<lparr>children := children m @
              [\<lparr>ring_geometry = next_id s, ring_material = Suc (next_id s),
                ring_color = css_value (color (getWarrantyStatus (daysRemaining_of e (clock s)))),
                ring_opacity = 0.6, ring_rotation_x = - pi / 2, ring_position_y = - 0.5\<rparr>]\<rparr>))
     \<and> tweens (addWarrantyIndicator i (Some e) s) =
         tweens s @ (if js_lt (daysRemaining_of e (clock s)) (Fin 30)
                     then [(next_id s + 2, RingPulse i (next_id s))] else [])
     \<and> (db_lookup (DEVICE_DB s) k = Some data \<and> warrantyExpiry data = Some e \<longrightarrow>
          warrantySection (panel (showInfoPanel (Some k) s)) =
            Some (WarrantyInfo (truthy_id (db_id data)) e (daysRemaining_of e (clock s))
                    (color (getWarrantyStatus (daysRemaining_of e (clock s))))))"
  using days_floor [of expiry now] status_int [of d] indicator_healthy [of e s i]
    indicator_ring [OF assms, of e] indicator_pulse [OF assms, of e]
    panel_warranty [of s k data e]
  by blast

theorem warranty_tier_and_ring_witness:
  "heap scene_two 9 \<noteq> None
   \<and> daysRemaining_of (Valid 864000000) (clock scene_two) = Fin 10
   \<and> status (getWarrantyStatus (Fin 10)) = ''critical''
   \<and> map_option (\<lambda>m. map ring_color (children m))
        (heap (addWarrantyIndicator 9 (Some (Valid 864000000)) scene_two) 9) = Some [0xf59e0b]
   \<and> tweens (addWarrantyIndicator 9 (Some (Valid 864000000)) scene_two) =
        [(8, RingPulse 3 6), (14, RingPulse 9 12)]
   \<and> db_lookup (DEVICE_DB scene_two) ''db_1'' \<noteq> None
   \<and> warrantySection (panel (showInfoPanel (Some ''db_1'') scene_two)) =
        Some (WarrantyInfo True (Valid 864000000) (Fin 10) ''#f59e0b'')"
proof -
  have h: "heap scene_two 9 = Some (the (heap scene_two 9))"
    by (simp add: scene_two_eq)
  have ck: "clock scene_two = 0"
    by (simp add: scene_two_eq)
  have st: "getWarrantyStatus (Fin 10) = \<lparr>color = ''#f59e0b'', status = ''critical''\<rparr>"
    by (simp add: getWarrantyStatus_def)
  have db: "db_lookup (DEVICE_DB scene_two) ''db_1'' =
              Some (the (db_lookup (DEVICE_DB scene_two) ''db_1''))"
    and we: "warrantyExpiry (the (db_lookup (DEVICE_DB scene_two) ''db_1'')) = Some (Valid 864000000)"
    and tr: "truthy_id (db_id (the (db_lookup (DEVICE_DB scene_two) ''db_1'')))"
    by (simp_all add: scene_two_eq db_lookup_def truthy_id_def)
  have cv: "css_value ''#f59e0b'' = 0xf59e0b"
    by (simp add: css_value_def hex_digit_def)
  note t = warranty_tier_and_ring [OF h, of 864000000 0 10 "Valid 864000000" "''db_1''"
      "the (db_lookup (DEVICE_DB scene_two) ''db_1'')"]
  have n: "next_id scene_two = 12" and tw: "tweens scene_two = [(8, RingPulse 3 6)]"
    and c9: "children (the (heap scene_two 9)) = []"
    by (simp_all add: scene_two_eq)
  have "\<exists>y. heap scene_two 9 = Some y" using h by blast
  moreover have "\<exists>y. db_lookup (DEVICE_DB scene_two) ''db_1'' = Some y" using db by blast
  ultimately show ?thesis using t h db we tr by (simp add: ck st cv n tw c9)
qed

section \<open>Properties of the selection controller\<close>




lemmas select_defs =
  select3DMesh_def deselectAll3D_def Let_def db_lookup_def key_of_def highlight_def focus_on_def
  showInfoPanel_def getHealthInfo_def center_at_position_def find_mesh_def meshes_of_def
  List.map_filter_def toFixed2_def truthy_id_def getWarrantyStatus_def

lemma scene_selected_facts:
  "selectedMesh scene_selected = Some 3"
  "heap scene_selected 3 = Some (the (heap scene_selected 3))"
  "position (the (heap scene_selected 3)) = \<lparr>vx = 1, vy = 13, vz = 2\<rparr>"
  "dbKey (the (heap scene_selected 3)) = Some ''db_1''"
  "db_lookup (DEVICE_DB scene_selected) ''db_1'' = Some (the (db_lookup (DEVICE_DB scene_selected) ''db_1''))"
  "db_id (the (db_lookup (DEVICE_DB scene_selected) ''db_1'')) = Some 1"
  "alerts scene_selected = []"
  "interactableMeshes scene_selected = [0, 3, 9]"
  "scene_children scene_selected = [3, 9]"
  "disposed scene_selected = []"
  "map fst (DEVICE_DB scene_selected) = [''Galaxy_VL_A'', ''db_1'', ''db_2'']"
  "tweens scene_selected = [(8, RingPulse 3 6), (12, Blink 3 4)]"
  "next_id scene_selected = 13"
  "blinkTween scene_selected = Some 12"
  by (simp_all add: scene_selected_def scene_two_eq select_defs)

lemma showInfoPanel_frame [simp]:
  "heap (showInfoPanel k s) = heap s"
  "tweens (showInfoPanel k s) = tweens s"
  "blinkTween (showInfoPanel k s) = blinkTween s"
  "selectedMesh (showInfoPanel k s) = selectedMesh s"
  "next_id (showInfoPanel k s) = next_id s"
  "DEVICE_DB (showInfoPanel k s) = DEVICE_DB s"
  by (simp_all add: showInfoPanel_def Let_def split: option.splits prod.splits)

lemma focus_on_frame [simp]:
  "heap (focus_on c s) = heap s"
  "tweens (focus_on c s) = tweens s"
  "blinkTween (focus_on c s) = blinkTween s"
  "selectedMesh (focus_on c s) = selectedMesh s"
  "next_id (focus_on c s) = next_id s"
  "DEVICE_DB (focus_on c s) = DEVICE_DB s"
  by (simp_all add: focus_on_def Let_def)

lemma deselect_fields:
  "blinkTween (deselectAll3D False s) = None"
  "selectedMesh (deselectAll3D False s) = None"
  "DEVICE_DB (deselectAll3D False s) = DEVICE_DB s"
  "tweens (deselectAll3D False s) =
     (case blinkTween s of None \<Rightarrow> tweens s | Some t \<Rightarrow> filter (\<lambda>p. fst p \<noteq> t) (tweens s))"
  "next_id s \<le> next_id (deselectAll3D False s)"
  by (simp_all add: deselectAll3D_def stop_tween_def Let_def split: option.splits)

lemma deselect_heap_other:
  "selectedMesh s \<noteq> Some j \<Longrightarrow> heap (deselectAll3D False s) j = heap s j"
  by (auto simp add: deselectAll3D_def stop_tween_def Let_def split: option.splits)

lemma deselect_heap_selected:
  assumes "selectedMesh s = Some j" "heap s j = Some m" "originalMat m = Some om"
  shows "heap (deselectAll3D False s) j =
     Some (m\<lparr>material := Some ((clone_material (next_id s) (floorPlane_constant s) om)
                               \<lparr>clippingPlanes := [FloorPlane]\<rparr>)\<rparr>)"
  using assms
  by (auto simp add: deselectAll3D_def stop_tween_def Let_def split: option.splits)

lemma filter_swap: "filter P (filter Q xs) = filter Q (filter P xs)"
  by (induction xs) auto

lemma deselect_blink:
  assumes "selection_inv s"
  shows "blink_tweens (deselectAll3D False s) = []"
    and "selection_inv (deselectAll3D False s)"
proof -
  show b: "blink_tweens (deselectAll3D False s) = []"
  proof (cases "blinkTween s")
    case None
    with assms show ?thesis
      by (simp add: blink_tweens_def deselect_fields selection_inv_def)
  next
    case (Some t)
    with assms have "map fst (blink_tweens s) = [t]" by (simp add: selection_inv_def)
    then have "set (map fst (blink_tweens s)) = {t}" by simp
    then have "\<forall>p \<in> set (blink_tweens s). fst p = t" by auto
    then have e: "filter (\<lambda>p. fst p \<noteq> t) (blink_tweens s) = []"
      by (simp add: filter_empty_conv)
    have "blink_tweens (deselectAll3D False s) =
            filter (\<lambda>p. is_blink (snd p)) (filter (\<lambda>p. fst p \<noteq> t) (tweens s))"
      using Some by (simp add: blink_tweens_def deselect_fields)
    also have "\<dots> = filter (\<lambda>p. fst p \<noteq> t) (blink_tweens s)"
      unfolding blink_tweens_def by (rule filter_swap)
    finally show ?thesis using e by simp
  qed
  have l: "list_all (\<lambda>p. fst p < next_id (deselectAll3D False s)) (tweens (deselectAll3D False s))"
  proof -
    have "list_all (\<lambda>p. fst p < next_id s) (tweens s)"
      using assms by (simp add: selection_inv_def)
    then have "list_all (\<lambda>p. fst p < next_id (deselectAll3D False s)) (tweens s)"
      using deselect_fields(5) [of s] by (auto simp: list_all_iff)
    then show ?thesis
      by (cases "blinkTween s") (auto simp: deselect_fields(4) list_all_iff)
  qed
  have "distinct (map fst (tweens s))"
    using assms by (simp add: selection_inv_def)
  then have "distinct (map fst (tweens (deselectAll3D False s)))"
    by (cases "blinkTween s") (simp_all add: deselect_fields(4) distinct_map_filter)
  with b l show "selection_inv (deselectAll3D False s)"
    by (simp add: selection_inv_def deselect_fields(1))
qed

lemma deselect_selectable:
  assumes "selectable s i"
  shows "selectable (deselectAll3D False s) i"
proof (cases "selectedMesh s = Some i")
  case False
  with assms show ?thesis
    by (cases "heap s i") (simp_all add: selectable_def deselect_heap_other deselect_fields(3))
next
  case True
  from assms obtain m om where m: "heap s i = Some m" "originalMat m = Some om"
      "db_lookup (DEVICE_DB s) (key_of (dbKey m)) \<noteq> None"
    by (auto simp: selectable_def split: option.splits)
  from deselect_heap_selected [OF True m(1,2)] m show ?thesis
    by (simp add: selectable_def deselect_fields(3))
qed


lemma select_fields:
  assumes "selectable s i"
  shows "fst (select3DMesh center i s) = None"
    and "selectedMesh (snd (select3DMesh center i s)) = Some i"
    and "blinkTween (snd (select3DMesh center i s)) = Some (next_id (deselectAll3D False s))"
    and "\<exists>n. tweens (snd (select3DMesh center i s)) =
           tweens (deselectAll3D False s) @ [(next_id (deselectAll3D False s), Blink i n)]"
    and "next_id (snd (select3DMesh center i s)) = Suc (next_id (deselectAll3D False s))"
    and "DEVICE_DB (snd (select3DMesh center i s)) = DEVICE_DB s"
    and "j \<noteq> i \<Longrightarrow> heap (snd (select3DMesh center i s)) j = heap (deselectAll3D False s) j"
    and "\<exists>m mat data. heap (deselectAll3D False s) i = Some m \<and> material m = Some mat
           \<and> db_lookup (DEVICE_DB s) (key_of (dbKey m)) = Some data
           \<and> heap (snd (select3DMesh center i s)) i =
               Some (m\<lparr>material := Some (mat\<lparr>emissive := three (getHealthInfo (health data)),
                                              emissiveIntensity := 0.8\<rparr>)\<rparr>)"
proof -
  let ?s1 = "deselectAll3D False s"
  from deselect_selectable [OF assms] obtain m mat data where
    m: "heap ?s1 i = Some m" "material m = Some mat"
       "db_lookup (DEVICE_DB ?s1) (key_of (dbKey m)) = Some data"
    by (auto simp: selectable_def split: option.splits)
  let ?s2 = "?s1\<lparr>selectedMesh := Some i\<rparr>"
  let ?s4 = "highlight i m mat (getHealthInfo (health data)) ?s2"
  have h4: "heap ?s4 i = Some (m\<lparr>material := Some (mat\<lparr>emissive := three (getHealthInfo (health data)),
                                              emissiveIntensity := 0.8\<rparr>)\<rparr>)"
    by (simp add: highlight_def Let_def)
  have eq: "select3DMesh center i s =
      (None, showInfoPanel (dbKey m)
         (focus_on (center (m\<lparr>material := Some (mat\<lparr>emissive := three (getHealthInfo (health data)),
                                              emissiveIntensity := 0.8\<rparr>)\<rparr>)) ?s4))"
    using m h4 by (simp add: select3DMesh_def Let_def)
  show "fst (select3DMesh center i s) = None" by (simp add: eq)
  show "selectedMesh (snd (select3DMesh center i s)) = Some i"
    by (simp add: eq highlight_def Let_def)
  show "blinkTween (snd (select3DMesh center i s)) = Some (next_id ?s1)"
    by (simp add: eq highlight_def Let_def)
  show "\<exists>n. tweens (snd (select3DMesh center i s)) = tweens ?s1 @ [(next_id ?s1, Blink i n)]"
    by (simp add: eq highlight_def Let_def)
  show "next_id (snd (select3DMesh center i s)) = Suc (next_id ?s1)"
    by (simp add: eq highlight_def Let_def)
  show "DEVICE_DB (snd (select3DMesh center i s)) = DEVICE_DB s"
    by (simp add: eq highlight_def Let_def deselect_fields(3))
  show "j \<noteq> i \<Longrightarrow> heap (snd (select3DMesh center i s)) j = heap ?s1 j"
    by (simp add: eq highlight_def Let_def)
  show "\<exists>m mat data. heap ?s1 i = Some m \<and> material m = Some mat
           \<and> db_lookup (DEVICE_DB s) (key_of (dbKey m)) = Some data
           \<and> heap (snd (select3DMesh center i s)) i =
               Some (m\<lparr>material := Some (mat\<lparr>emissive := three (getHealthInfo (health data)),
                                              emissiveIntensity := 0.8\<rparr>)\<rparr>)"
    using m h4 by (simp add: eq deselect_fields(3))
qed

lemma select_inv:
  assumes "selectable s i" "selection_inv s"
  shows "selection_inv (snd (select3DMesh center i s))"
    and "\<exists>n. blink_tweens (snd (select3DMesh center i s)) = [(next_id (deselectAll3D False s), Blink i n)]"
proof -
  let ?s1 = "deselectAll3D False s"
  let ?s' = "snd (select3DMesh center i s)"
  note f = select_fields [OF assms(1), where center = center]
  from f(4) obtain n where tw: "tweens ?s' = tweens ?s1 @ [(next_id ?s1, Blink i n)]" by blast
  note d = deselect_blink [OF assms(2)]
  have b: "blink_tweens ?s' = [(next_id ?s1, Blink i n)]"
    using d(1) by (simp add: blink_tweens_def tw is_blink_def)
  then show "\<exists>n. blink_tweens ?s' = [(next_id ?s1, Blink i n)]" by blast
  have l1: "list_all (\<lambda>p. fst p < next_id ?s1) (tweens ?s1)"
    and d1: "distinct (map fst (tweens ?s1))"
    using d(2) by (simp_all add: selection_inv_def)
  from l1 have "list_all (\<lambda>p. fst p < Suc (next_id ?s1)) (tweens ?s')"
    by (auto simp: tw list_all_iff)
  moreover from l1 d1 have "distinct (map fst (tweens ?s'))"
    by (auto simp: tw list_all_iff)
  ultimately show "selection_inv ?s'"
    by (simp add: selection_inv_def b f(3,5))
qed










subsection \<open>The selection invariant is kept\<close>

text \<open>
  The invariant assumed of the selection state holds of the initial state and is kept by
  the operations that start or stop tweens: deselecting, selecting any mesh (also when the
  call throws), spawning, the delete handler and the completion of a fade-out.
\<close>

lemma inv_step:
  assumes "selection_inv s" and "blinkTween s' = blinkTween s" and "next_id s \<le> next_id s'"
    and "tweens s' = tweens s @ new"
    and "list_all (\<lambda>p. \<not> is_blink (snd p) \<and> next_id s \<le> fst p \<and> fst p < next_id s') new"
    and "distinct (map fst new)"
  shows "selection_inv s'"
proof -
  from assms(1) have a: "map fst (blink_tweens s) = (case blinkTween s of None \<Rightarrow> [] | Some t \<Rightarrow> [t])"
    and b: "list_all (\<lambda>p. fst p < next_id s) (tweens s)" and c: "distinct (map fst (tweens s))"
    by (simp_all add: selection_inv_def)
  from assms(5) have "filter (\<lambda>p. is_blink (snd p)) new = []"
    by (auto simp: filter_empty_conv list_all_iff)
  then have 1: "blink_tweens s' = blink_tweens s"
    by (simp add: blink_tweens_def assms(4))
  have 2: "list_all (\<lambda>p. fst p < next_id s') (tweens s')"
    using b assms(3,5) by (auto simp: assms(4) list_all_iff)
  have 3: "distinct (map fst (tweens s'))"
    using b c assms(5,6) by (fastforce simp: assms(4) list_all_iff)
  show ?thesis using a 1 2 3 by (simp add: selection_inv_def assms(2))
qed

lemma inv_frame:
  assumes "selection_inv s" and "blinkTween s' = blinkTween s" and "next_id s \<le> next_id s'"
    and "tweens s' = tweens s"
  shows "selection_inv s'"
  by (rule inv_step [OF assms(1-3), where new = "[]"]) (simp_all add: assms(4))

lemma inv_init: "selection_inv init_state"
  by (simp add: selection_inv_def init_state_def blink_tweens_def)

lemma inv_deselect: "selection_inv s \<Longrightarrow> selection_inv (deselectAll3D b s)"
proof -
  assume a: "selection_inv s"
  have "blinkTween (deselectAll3D b s) = blinkTween (deselectAll3D False s)"
    "next_id (deselectAll3D False s) \<le> next_id (deselectAll3D b s)"
    "tweens (deselectAll3D b s) = tweens (deselectAll3D False s)"
    by (simp_all add: deselectAll3D_def Let_def)
  with deselect_blink(2) [OF a] show ?thesis by (rule inv_frame)
qed

lemma inv_select: "selection_inv s \<Longrightarrow> selection_inv (snd (select3DMesh center i s))"
proof (cases "selectable s i")
  case True
  assume "selection_inv s"
  with True show ?thesis by (rule select_inv(1))
next
  case False
  assume a: "selection_inv s"
  let ?s1 = "deselectAll3D False s"
  let ?s2 = "?s1\<lparr>selectedMesh := Some i\<rparr>"
  have eq: "blinkTween (snd (select3DMesh center i s)) = blinkTween ?s1
         \<and> tweens (snd (select3DMesh center i s)) = tweens ?s1
         \<and> next_id (snd (select3DMesh center i s)) = next_id ?s1
       \<or> (\<exists>n. blinkTween (snd (select3DMesh center i s)) = Some (next_id ?s1)
         \<and> tweens (snd (select3DMesh center i s)) = tweens ?s1 @ [(next_id ?s1, Blink i n)]
         \<and> next_id (snd (select3DMesh center i s)) = Suc (next_id ?s1))"
  proof (cases "heap ?s2 i")
    case None
    then have "select3DMesh center i s = (Some TypeError, ?s2)"
      by (simp add: select3DMesh_def Let_def)
    then show ?thesis by simp
  next
    case (Some m)
    show ?thesis
    proof (cases "db_lookup (DEVICE_DB ?s2) (key_of (dbKey m))")
      case None
      with Some have "select3DMesh center i s = (Some TypeError, ?s2)"
        by (simp add: select3DMesh_def Let_def)
      then show ?thesis by simp
    next
      case d: (Some data)
      show ?thesis
      proof (cases "material m")
        case None
        with Some d have "select3DMesh center i s = (Some TypeError, ?s2)"
          by (simp add: select3DMesh_def Let_def)
        then show ?thesis by simp
      next
        case mt: (Some mat)
        let ?s4 = "highlight i m mat (getHealthInfo (health data)) ?s2"
        have "\<exists>m'. heap ?s4 i = Some m'" by (simp add: highlight_def Let_def)
        then obtain m' where m': "heap ?s4 i = Some m'" by blast
        from Some d mt m' have "select3DMesh center i s =
            (None, showInfoPanel (dbKey m) (focus_on (center m') ?s4))"
          by (simp add: select3DMesh_def Let_def)
        then show ?thesis by (simp add: highlight_def Let_def)
      qed
    qed
  qed
  note d = deselect_blink [OF a]
  from eq show ?thesis
  proof
    assume "blinkTween (snd (select3DMesh center i s)) = blinkTween ?s1
         \<and> tweens (snd (select3DMesh center i s)) = tweens ?s1
         \<and> next_id (snd (select3DMesh center i s)) = next_id ?s1"
    then show ?thesis by (intro inv_frame [OF d(2)]) simp_all
  next
    assume "\<exists>n. blinkTween (snd (select3DMesh center i s)) = Some (next_id ?s1)
         \<and> tweens (snd (select3DMesh center i s)) = tweens ?s1 @ [(next_id ?s1, Blink i n)]
         \<and> next_id (snd (select3DMesh center i s)) = Suc (next_id ?s1)"
    then obtain n where e: "blinkTween (snd (select3DMesh center i s)) = Some (next_id ?s1)"
      "tweens (snd (select3DMesh center i s)) = tweens ?s1 @ [(next_id ?s1, Blink i n)]"
      "next_id (snd (select3DMesh center i s)) = Suc (next_id ?s1)" by blast
    from d(2) have l: "list_all (\<lambda>p. fst p < next_id ?s1) (tweens ?s1)"
      and di: "distinct (map fst (tweens ?s1))" by (simp_all add: selection_inv_def)
    have "blink_tweens (snd (select3DMesh center i s)) = [(next_id ?s1, Blink i n)]"
      using d(1) by (simp add: blink_tweens_def e is_blink_def)
    moreover have "list_all (\<lambda>p. fst p < Suc (next_id ?s1)) (tweens (snd (select3DMesh center i s)))"
      using l by (auto simp: e list_all_iff)
    moreover have "distinct (map fst (tweens (snd (select3DMesh center i s))))"
      using l di by (auto simp: e list_all_iff)
    ultimately show ?thesis by (simp add: selection_inv_def e)
  qed
qed

lemma inv_indicator: "selection_inv s \<Longrightarrow> selection_inv (addWarrantyIndicator i e s)"
proof -
  assume a: "selection_inv s"
  let ?s' = "addWarrantyIndicator i e s"
  have b: "blinkTween ?s' = blinkTween s" and n: "next_id s \<le> next_id ?s'"
    by (auto simp: addWarrantyIndicator_def Let_def split: option.splits)
  have "tweens ?s' = tweens s
        \<or> tweens ?s' = tweens s @ [(next_id s + 2, RingPulse i (next_id s))]
           \<and> next_id ?s' = next_id s + 3"
    by (auto simp: addWarrantyIndicator_def Let_def split: option.splits)
  then show ?thesis
  proof
    assume "tweens ?s' = tweens s"
    with a b n show ?thesis by (rule inv_frame)
  next
    assume c: "tweens ?s' = tweens s @ [(next_id s + 2, RingPulse i (next_id s))]
           \<and> next_id ?s' = next_id s + 3"
    show ?thesis
      by (rule inv_step [OF a b n, where new = "[(next_id s + 2, RingPulse i (next_id s))]"])
         (simp_all add: c is_blink_def)
  qed
qed

lemma inv_spawn: "selection_inv s \<Longrightarrow> selection_inv (snd (spawnDeviceFromDatabase d s))"
proof -
  assume a: "selection_inv s"
  show ?thesis
  proof (cases "find_mesh (\<lambda>m. includes_str (name m) (mesh_identifier (product d))) s")
    case None
    then show ?thesis
      by (intro inv_frame [OF a]) (simp_all add: spawnDeviceFromDatabase_def Let_def)
  next
    case (Some p)
    obtain t tm where p: "p = (t, tm)" by (cases p)
    obtain s1 where eq0: "spawnDeviceFromDatabase d s =
        (Some (next_id s), (addWarrantyIndicator (next_id s) (warranty_expiry d) s1)
          \<lparr>console := console (addWarrantyIndicator (next_id s) (warranty_expiry d) s1)
                        @ [Spawned (product_name (product d))]\<rparr>)"
      and s1: "tweens s1 = tweens s" "blinkTween s1 = blinkTween s" "next_id s1 = next_id s + 3"
      using Some p by (auto simp: spawnDeviceFromDatabase_def Let_def split: option.splits)
    have eq: "snd (spawnDeviceFromDatabase d s) =
        (addWarrantyIndicator (next_id s) (warranty_expiry d) s1)
          \<lparr>console := console (addWarrantyIndicator (next_id s) (warranty_expiry d) s1)
                        @ [Spawned (product_name (product d))]\<rparr>"
      by (simp add: eq0)
    have "selection_inv s1" by (rule inv_frame [OF a]) (simp_all add: s1)
    then have "selection_inv (addWarrantyIndicator (next_id s) (warranty_expiry d) s1)"
      by (rule inv_indicator)
    then show ?thesis unfolding eq by (rule inv_frame) simp_all
  qed
qed

lemma remove_locally_tweens:
  "blinkTween (remove_locally i data s) = blinkTween s"
  "tweens (remove_locally i data s) = tweens s \<and> next_id (remove_locally i data s) = next_id s
   \<or> tweens (remove_locally i data s) = tweens s @ [(next_id s, FadeOut i)]
     \<and> next_id (remove_locally i data s) = Suc (next_id s)"
proof -
  show "blinkTween (remove_locally i data s) = blinkTween s"
    by (cases "heap s i"; cases "material (the (heap s i))")
       (simp_all add: remove_locally_def hideInfoPanel_def Let_def)
  show "tweens (remove_locally i data s) = tweens s \<and> next_id (remove_locally i data s) = next_id s
   \<or> tweens (remove_locally i data s) = tweens s @ [(next_id s, FadeOut i)]
     \<and> next_id (remove_locally i data s) = Suc (next_id s)"
    by (cases "heap s i"; cases "material (the (heap s i))")
       (simp_all add: remove_locally_def hideInfoPanel_def Let_def)
qed

lemma inv_remove: "selection_inv s \<Longrightarrow> selection_inv (remove_locally i data s)"
proof -
  assume a: "selection_inv s"
  let ?s' = "remove_locally i data s"
  note r = remove_locally_tweens [of i data s]
  from r(2) show ?thesis
  proof
    assume "tweens ?s' = tweens s \<and> next_id ?s' = next_id s"
    then show ?thesis using r(1) by (intro inv_frame [OF a]) simp_all
  next
    assume c: "tweens ?s' = tweens s @ [(next_id s, FadeOut i)] \<and> next_id ?s' = Suc (next_id s)"
    show ?thesis
      by (rule inv_step [OF a r(1), where new = "[(next_id s, FadeOut i)]"])
         (simp_all add: c is_blink_def)
  qed
qed

lemma delete_click_cases:
  "(\<exists>c al. deleteDeviceBtn_click cf resp s = s\<lparr>console := c, alerts := al\<rparr>)
   \<or> (\<exists>i data c. deleteDeviceBtn_click cf resp s = remove_locally i data (s\<lparr>console := c\<rparr>))"
proof (cases "selectedMesh s")
  case None
  then have "deleteDeviceBtn_click cf resp s = s\<lparr>console := console s, alerts := alerts s\<rparr>"
    by (simp add: deleteDeviceBtn_click_def)
  then show ?thesis by blast
next
  case (Some i)
  show ?thesis
  proof (cases "heap s i")
    case None
    with Some have "deleteDeviceBtn_click cf resp s = s\<lparr>console := console s, alerts := alerts s\<rparr>"
      by (simp add: deleteDeviceBtn_click_def)
    then show ?thesis by blast
  next
    case m: (Some m)
    show ?thesis
    proof (cases "db_lookup (DEVICE_DB s) (key_of (dbKey m))")
      case None
      with Some m have "deleteDeviceBtn_click cf resp s =
          s\<lparr>console := console s, alerts := alerts s @ [CannotDeleteNoInfo]\<rparr>"
        by (simp add: deleteDeviceBtn_click_def)
      then show ?thesis by blast
    next
      case d: (Some data)
      show ?thesis
      proof (cases cf)
        case False
        with Some m d have "deleteDeviceBtn_click cf resp s = s\<lparr>console := console s, alerts := alerts s\<rparr>"
          by (simp add: deleteDeviceBtn_click_def)
        then show ?thesis by blast
      next
        case True
        show ?thesis
        proof (cases "truthy_id (db_id data)")
          case False
          with Some m d True have "deleteDeviceBtn_click cf resp s =
              remove_locally i data (s\<lparr>console := console s @ [RemovingTemplateDevice (serial data)]\<rparr>)"
            by (auto simp: deleteDeviceBtn_click_def truthy_id_def split: option.splits)
          then show ?thesis by blast
        next
          case t: True
          then obtain n where n: "db_id data = Some n" "n \<noteq> 0"
            by (auto simp: truthy_id_def split: option.splits)
          show ?thesis
          proof (cases "resp = HttpOk")
            case True
            with Some m d \<open>cf\<close> n have "deleteDeviceBtn_click cf resp s =
                remove_locally i data (s\<lparr>console := console s @ [DeletedDevice n]\<rparr>)"
              by (simp add: deleteDeviceBtn_click_def deleteDevice_def)
            then show ?thesis by blast
          next
            case False
            with Some m d \<open>cf\<close> n have "deleteDeviceBtn_click cf resp s =
                s\<lparr>console := console s @ [FailedToDeleteDevice], alerts := alerts s @ [DeleteFailed]\<rparr>"
              by (simp add: deleteDeviceBtn_click_def deleteDevice_def)
            then show ?thesis by blast
          qed
        qed
      qed
    qed
  qed
qed

lemma inv_delete: "selection_inv s \<Longrightarrow> selection_inv (deleteDeviceBtn_click cf resp s)"
proof -
  assume a: "selection_inv s"
  from delete_click_cases [of cf resp s] show ?thesis
  proof (elim disjE exE)
    fix c al assume "deleteDeviceBtn_click cf resp s = s\<lparr>console := c, alerts := al\<rparr>"
    then show ?thesis by (intro inv_frame [OF a]) simp_all
  next
    fix i data c
    assume e: "deleteDeviceBtn_click cf resp s = remove_locally i data (s\<lparr>console := c\<rparr>)"
    have "selection_inv (s\<lparr>console := c\<rparr>)" by (rule inv_frame [OF a]) simp_all
    then show ?thesis unfolding e by (rule inv_remove)
  qed
qed

lemma inv_fade: "selection_inv s \<Longrightarrow> selection_inv (fadeOut_complete t s)"
proof (cases "\<exists>i. map_of (tweens s) t = Some (FadeOut i) \<and> heap s i \<noteq> None")
  case False
  assume "selection_inv s"
  moreover from False have "fadeOut_complete t s = s"
    by (auto simp: fadeOut_complete_def split: option.splits tween.splits)
  ultimately show ?thesis by simp
next
  case True
  assume a: "selection_inv s"
  from True obtain i where i: "map_of (tweens s) t = Some (FadeOut i)" by blast
  let ?s' = "fadeOut_complete t s"
  have f: "tweens ?s' = filter (\<lambda>p. fst p \<noteq> t) (tweens s)" "blinkTween ?s' = blinkTween s"
          "next_id ?s' = next_id s"
    using True
    by (auto simp: fadeOut_complete_def completeMeshDeletion_def stop_tween_def Let_def
        split: option.splits)
  from a have di: "distinct (map fst (tweens s))" and l: "list_all (\<lambda>p. fst p < next_id s) (tweens s)"
    and b: "map fst (blink_tweens s) = (case blinkTween s of None \<Rightarrow> [] | Some t \<Rightarrow> [t])"
    by (simp_all add: selection_inv_def)
  have "\<forall>p \<in> set (blink_tweens s). fst p \<noteq> t"
  proof
    fix p assume "p \<in> set (blink_tweens s)"
    then have p: "p \<in> set (tweens s)" "is_blink (snd p)" by (simp_all add: blink_tweens_def)
    show "fst p \<noteq> t"
    proof
      assume "fst p = t"
      with p(1) di have "map_of (tweens s) t = Some (snd p)"
        by (metis map_of_is_SomeI prod.collapse)
      with i p(2) show False by (simp add: is_blink_def)
    qed
  qed
  then have "filter (\<lambda>p. fst p \<noteq> t) (blink_tweens s) = blink_tweens s"
    by (simp add: filter_id_conv)
  then have "blink_tweens ?s' = blink_tweens s"
    unfolding blink_tweens_def f(1) by (subst filter_swap) simp
  moreover have "list_all (\<lambda>p. fst p < next_id ?s') (tweens ?s')"
    using l by (auto simp: f list_all_iff)
  moreover have "distinct (map fst (tweens ?s'))"
    using di by (simp add: f distinct_map_filter)
  ultimately show ?thesis using b by (simp add: selection_inv_def f(2))
qed


section \<open>Properties of the floor filter and of the projector\<close>

lemma find_mesh_floorSelect:
  "find_mesh P (floorSelect_change c s) = find_mesh P s"
  by (simp add: find_mesh_def meshes_of_def floorSelect_change_def Let_def split: floor_choice.splits)

lemma floor_interval: "(\<lfloor>y / 6\<rfloor> + 1 = (3::int)) = (12 \<le> y \<and> y < (18::real))"
  by (simp add: floor_eq_iff)

text \<open>
  Claim C6. Choosing floor \<open>n\<close> sets the constant of the clipping plane to \<open>n\<close> times the
  floor height and leaves the floor height as it is; for a floor number other than 0 the 2D
  view then draws exactly the registry entries that have a mesh with
  \<open>floor(position.y / FLOOR_HEIGHT) + 1 = n\<close>, computed from the same \<open>FLOOR_HEIGHT\<close>.
  With a floor height of 6, floor 3 gives the constant 18 and admits the heights from 12
  up to, but not including, 18.
\<close>

theorem floor_filter_views_agree:
  "floorPlane_constant (floorSelect_change (Level n) s) = of_int n * FLOOR_HEIGHT s
   \<and> FLOOR_HEIGHT (floorSelect_change (Level n) s) = FLOOR_HEIGHT s
   \<and> (n \<noteq> 0 \<longrightarrow>
        currentFloorDevices (floorSelect_change (Level n) s) =
          filter (\<lambda>d. case find_mesh (\<lambda>m. dbKey m = Some (fst d)) s of
                        None \<Rightarrow> False
                      | Some (i, m) \<Rightarrow> \<lfloor>vy (position m) / FLOOR_HEIGHT s\<rfloor> + 1 = n)
            (DEVICE_DB s))
   \<and> (FLOOR_HEIGHT s = 6 \<longrightarrow>
        floorPlane_constant (floorSelect_change (Level 3) s) = 18
        \<and> (\<lfloor>y / FLOOR_HEIGHT s\<rfloor> + 1 = 3 \<longleftrightarrow> 12 \<le> y \<and> y < 18))"
proof -
  have a: "floorPlane_constant (floorSelect_change (Level k) s) = of_int k * FLOOR_HEIGHT s" for k
    by (simp add: floorSelect_change_def Let_def)
  have b: "FLOOR_HEIGHT (floorSelect_change (Level n) s) = FLOOR_HEIGHT s"
    and c: "DEVICE_DB (floorSelect_change (Level n) s) = DEVICE_DB s"
    and d: "floorSelect_value (floorSelect_change (Level n) s) = Some (Level n)"
    by (simp_all add: floorSelect_change_def Let_def)
  have e: "n \<noteq> 0 \<Longrightarrow> currentFloorDevices (floorSelect_change (Level n) s) =
          filter (\<lambda>d. case find_mesh (\<lambda>m. dbKey m = Some (fst d)) s of
                        None \<Rightarrow> False
                      | Some (i, m) \<Rightarrow> \<lfloor>vy (position m) / FLOOR_HEIGHT s\<rfloor> + 1 = n)
            (DEVICE_DB s)"
    by (simp add: currentFloorDevices_def b c d parseInt_or_1_def find_mesh_floorSelect
        cong: option.case_cong)
  show ?thesis using a [of n] a [of 3] b e by (simp add: floor_interval)
qed

theorem floor_filter_views_agree_witness:
  "(3::int) \<noteq> 0 \<and> FLOOR_HEIGHT scene_two = 6
   \<and> floorPlane_constant (floorSelect_change (Level 3) scene_two) = 18
   \<and> map fst (currentFloorDevices (floorSelect_change (Level 3) scene_two)) = [''db_1'']
   \<and> (\<lfloor>13 / FLOOR_HEIGHT scene_two\<rfloor> + 1 = (3::int))"
proof -
  have h: "FLOOR_HEIGHT scene_two = 6" by (simp add: scene_two_eq)
  have f: "map fst (filter (\<lambda>d. case find_mesh (\<lambda>m. dbKey m = Some (fst d)) scene_two of
                        None \<Rightarrow> False
                      | Some (i, m) \<Rightarrow> \<lfloor>vy (position m) / FLOOR_HEIGHT scene_two\<rfloor> + 1 = 3)
            (DEVICE_DB scene_two)) = [''db_1'']"
    by (simp add: scene_two_eq find_mesh_def meshes_of_def List.map_filter_def)
  from floor_filter_views_agree [of 3 scene_two 13] h f show ?thesis by simp
qed

text \<open>
  Claim C9. The projection sends a world position to \<open>(x * 30, - z * 30)\<close>. The pan and
  zoom of the viewport are a separate transform: the canvas draws a projected point at
  offset plus scale times the point, and the zoom and pan handlers leave every mesh, hence
  every stored position, as it is. For a viewport whose scale is not 0, the mapping used by
  hit-testing is the two-sided inverse of that transform, so a projected point drawn on the
  canvas and mapped back is the projected point again. The zoom handler keeps the scale
  between its bounds. Numbers are reals here, so the round trip is exact.
\<close>

theorem projection_round_trip:
  "toTopDown p = (vx p * 30, - vz p * 30)
   \<and> (scale nv \<noteq> 0 \<longrightarrow>
        toWorld nv (to_canvas nv q) = q \<and> to_canvas nv (toWorld nv q) = q
        \<and> toWorld nv (to_canvas nv (toTopDown p)) = toTopDown p)
   \<and> heap (nodeCanvas_wheel dy s) = heap s
   \<and> heap (nodeCanvas_mousemove_drag cx cy s) = heap s
   \<and> (minScale (node_view s) \<le> scale (node_view s) \<and> scale (node_view s) \<le> maxScale (node_view s)
        \<longrightarrow> minScale (node_view (nodeCanvas_wheel dy s)) \<le> scale (node_view (nodeCanvas_wheel dy s))
          \<and> scale (node_view (nodeCanvas_wheel dy s)) \<le> maxScale (node_view (nodeCanvas_wheel dy s)))"
  by (simp add: toTopDown_def scale2d_def toWorld_def to_canvas_def nodeCanvas_wheel_def
      nodeCanvas_mousemove_drag_def Let_def)

theorem projection_round_trip_witness:
  "scale (nodeView_init\<lparr>offsetX := 400, offsetY := 300, scale := 1.1\<rparr>) \<noteq> 0
   \<and> to_canvas (nodeView_init\<lparr>offsetX := 400, offsetY := 300, scale := 1.1\<rparr>)
        (toTopDown \<lparr>vx = 1, vy = 13, vz = 2\<rparr>) = (433, 234)
   \<and> toWorld (nodeView_init\<lparr>offsetX := 400, offsetY := 300, scale := 1.1\<rparr>) (433, 234) = (30, - 60)
   \<and> minScale (node_view scene_two) \<le> scale (node_view scene_two)
   \<and> scale (node_view scene_two) \<le> maxScale (node_view scene_two)
   \<and> scale (node_view (nodeCanvas_wheel 1 (scene_two\<lparr>current2DView := ViewNode\<rparr>))) = 0.9"
proof -
  have b: "minScale (node_view (scene_two\<lparr>current2DView := ViewNode\<rparr>))
             \<le> scale (node_view (scene_two\<lparr>current2DView := ViewNode\<rparr>))
           \<and> scale (node_view (scene_two\<lparr>current2DView := ViewNode\<rparr>))
             \<le> maxScale (node_view (scene_two\<lparr>current2DView := ViewNode\<rparr>))"
    by (simp add: scene_two_eq nodeView_init_def)
  have w: "scale (node_view (nodeCanvas_wheel 1 (scene_two\<lparr>current2DView := ViewNode\<rparr>))) = 0.9"
    by (simp add: scene_two_eq nodeView_init_def nodeCanvas_wheel_def Let_def)
  have c: "to_canvas (nodeView_init\<lparr>offsetX := 400, offsetY := 300, scale := 1.1\<rparr>)
        (toTopDown \<lparr>vx = 1, vy = 13, vz = 2\<rparr>) = (433, 234)"
    by (simp add: to_canvas_def toTopDown_def scale2d_def nodeView_init_def)
  from projection_round_trip [of "\<lparr>vx = 1, vy = 13, vz = 2\<rparr>"
      "nodeView_init\<lparr>offsetX := 400, offsetY := 300, scale := 1.1\<rparr>"
      "toTopDown \<lparr>vx = 1, vy = 13, vz = 2\<rparr>" 1 "scene_two\<lparr>current2DView := ViewNode\<rparr>"]
    b w c
  show ?thesis by (simp add: toTopDown_def scale2d_def)
qed

section \<open>Properties of the sync gateway\<close>

lemma delete_failure:
  assumes "selectedMesh s = Some i" "heap s i = Some m"
    "db_lookup (DEVICE_DB s) (key_of (dbKey m)) = Some d" "db_id d = Some n" "n \<noteq> 0"
    "resp \<noteq> HttpOk"
  shows "deleteDeviceBtn_click True resp s =
           s\<lparr>console := console s @ [FailedToDeleteDevice], alerts := alerts s @ [DeleteFailed]\<rparr>"
  using assms by (simp add: deleteDeviceBtn_click_def deleteDevice_def)

lemma delete_success:
  assumes "selectedMesh s = Some i" "heap s i = Some m"
    "db_lookup (DEVICE_DB s) (key_of (dbKey m)) = Some d" "db_id d = Some n" "n \<noteq> 0"
  shows "deleteDeviceBtn_click True HttpOk s =
           remove_locally i d (s\<lparr>console := console s @ [DeletedDevice n]\<rparr>)"
  using assms by (simp add: deleteDeviceBtn_click_def deleteDevice_def)

lemma position_applied:
  assumes "selectedMesh s = Some i" "heap s i = Some m"
  shows "heap (updatePositionBtn_click (Some x) (Some y) (Some z) resp s) i =
           Some (m\<lparr>position := \<lparr>vx = x, vy = y, vz = z\<rparr>\<rparr>)"
  using assms
  by (simp add: updatePositionBtn_click_def saveDevicePosition_def Let_def split: option.splits)

lemma position_invalid:
  assumes "selectedMesh s = Some i" "heap s i = Some m" "x = None \<or> y = None \<or> z = None"
  shows "updatePositionBtn_click x y z resp s = s\<lparr>alerts := alerts s @ [InvalidCoordinates]\<rparr>"
  using assms
  by (auto simp add: updatePositionBtn_click_def split: option.splits)

lemma health_no_local_effect:
  "updateDeviceHealth n score st resp s =
     s\<lparr>console := console s @ (if resp = NetworkFailure then [FailedToUpdateHealth] else [])\<rparr>"
  by (simp add: updateDeviceHealth_def)

lemma position_reported_saved:
  assumes "selectedMesh s = Some i" "heap s i = Some m"
    "db_lookup (DEVICE_DB s) (key_of (dbKey m)) = Some d" "db_id d = Some n" "n \<noteq> 0"
  shows "alerts (updatePositionBtn_click (Some x) (Some y) (Some z) resp s) =
           alerts s @ [PositionSavedToDatabase (toFixed2 x) (toFixed2 y) (toFixed2 z)]
         \<and> console (updatePositionBtn_click (Some x) (Some y) (Some z) resp s) =
           console s @ [if resp = HttpOk then SavedPosition n else FailedToSavePosition]"
  using assms
  by (simp add: updatePositionBtn_click_def saveDevicePosition_def Let_def)

lemma scene_selected_db:
  "db_lookup (DEVICE_DB scene_selected) (key_of (dbKey (the (heap scene_selected 3)))) =
     Some (the (db_lookup (DEVICE_DB scene_selected) ''db_1''))"
  using scene_selected_facts(4,5) by (simp add: key_of_def)

text \<open>
  Claim C1 does not hold for the position update: in the example scene, with the first
  device selected, a position update whose request the Persistence Service answers with
  an error status still moves the mesh, and the user is told that the position was saved.
\<close>

theorem position_update_counterexample:
  "map_option position (heap scene_selected 3) = Some \<lparr>vx = 1, vy = 13, vz = 2\<rparr>
   \<and> map_option position
        (heap (updatePositionBtn_click (Some 5) (Some 1) (Some 5) HttpNotOk scene_selected) 3)
       = Some \<lparr>vx = 5, vy = 1, vz = 5\<rparr>
   \<and> alerts (updatePositionBtn_click (Some 5) (Some 1) (Some 5) HttpNotOk scene_selected)
       = [PositionSavedToDatabase 5 1 5]
   \<and> console (updatePositionBtn_click (Some 5) (Some 1) (Some 5) HttpNotOk scene_selected)
       = console scene_selected @ [FailedToSavePosition]"
proof -
  note a = scene_selected_facts(2)
  have "map_option position (heap scene_selected 3) = Some \<lparr>vx = 1, vy = 13, vz = 2\<rparr>"
    using a scene_selected_facts(3) by (metis option.simps(9))
  moreover have "map_option position
        (heap (updatePositionBtn_click (Some 5) (Some 1) (Some 5) HttpNotOk scene_selected) 3)
       = Some \<lparr>vx = 5, vy = 1, vz = 5\<rparr>"
    using position_applied [OF scene_selected_facts(1) a] by simp
  moreover have "alerts (updatePositionBtn_click (Some 5) (Some 1) (Some 5) HttpNotOk scene_selected)
       = [PositionSavedToDatabase 5 1 5]
     \<and> console (updatePositionBtn_click (Some 5) (Some 1) (Some 5) HttpNotOk scene_selected)
       = console scene_selected @ [FailedToSavePosition]"
    using position_reported_saved [OF scene_selected_facts(1) a scene_selected_db
        scene_selected_facts(6), of 5 1 5 HttpNotOk]
    by (simp add: scene_selected_facts(7) toFixed2_def)
  ultimately show ?thesis by blast
qed

text \<open>
  Claim C1, amended. For a selected device that is persisted (its \<open>db_id\<close> is set):
  a delete whose remote call fails leaves the state as it was, except that the failure is
  logged and shown in an alert; a delete whose remote call succeeds then removes the device
  locally; a position update with three valid numbers puts the mesh at the new position
  before the remote call and whatever the remote call answers; and the health update
  changes nothing but the console.
\<close>

theorem sync_gateway_effects:
  assumes "selectedMesh s = Some i" and "heap s i = Some m"
    and "db_lookup (DEVICE_DB s) (key_of (dbKey m)) = Some d"
    and "db_id d = Some n" and "n \<noteq> 0"
  shows
    "(resp \<noteq> HttpOk \<longrightarrow>
        deleteDeviceBtn_click True resp s =
          s\<lparr>console := console s @ [FailedToDeleteDevice], alerts := alerts s @ [DeleteFailed]\<rparr>)
     \<and> deleteDeviceBtn_click True HttpOk s =
         remove_locally i d (s\<lparr>console := console s @ [DeletedDevice n]\<rparr>)
     \<and> heap (updatePositionBtn_click (Some x) (Some y) (Some z) resp s) i =
         Some (m\<lparr>position := \<lparr>vx = x, vy = y, vz = z\<rparr>\<rparr>)
     \<and> updateDeviceHealth n score st resp s =
         s\<lparr>console := console s @ (if resp = NetworkFailure then [FailedToUpdateHealth] else [])\<rparr>"
  using delete_failure [OF assms, of resp] delete_success [OF assms]
    position_applied [OF assms(1,2), of x y z resp] health_no_local_effect [of n score st resp s]
  by blast

theorem sync_gateway_effects_witness:
  "selectedMesh scene_selected = Some 3
   \<and> heap scene_selected 3 \<noteq> None
   \<and> map_option db_id (db_lookup (DEVICE_DB scene_selected) ''db_1'') = Some (Some 1)
   \<and> deleteDeviceBtn_click True HttpNotOk scene_selected =
       scene_selected\<lparr>console := console scene_selected @ [FailedToDeleteDevice],
                      alerts := [DeleteFailed]\<rparr>
   \<and> map_option position
        (heap (updatePositionBtn_click (Some 5) (Some 1) (Some 5) HttpOk scene_selected) 3)
       = Some \<lparr>vx = 5, vy = 1, vz = 5\<rparr>"
proof -
  note t = sync_gateway_effects [OF scene_selected_facts(1,2) scene_selected_db
      scene_selected_facts(6), of HttpNotOk 5 1 5]
  have "heap scene_selected 3 \<noteq> None" using scene_selected_facts(2) by (metis option.distinct(1))
  moreover have "map_option db_id (db_lookup (DEVICE_DB scene_selected) ''db_1'') = Some (Some 1)"
    using scene_selected_facts(5,6) by (metis option.simps(9))
  moreover have "map_option position
        (heap (updatePositionBtn_click (Some 5) (Some 1) (Some 5) HttpOk scene_selected) 3)
       = Some \<lparr>vx = 5, vy = 1, vz = 5\<rparr>"
    using sync_gateway_effects [OF scene_selected_facts(1,2) scene_selected_db
      scene_selected_facts(6), of HttpOk 5 1 5] by simp
  ultimately show ?thesis using t scene_selected_facts(1,7) by simp
qed


section \<open>Properties of deletion\<close>














section \<open>Properties of the pending spawn queue\<close>






lemma meshes_of_snoc:
  assumes "interactableMeshes s' = interactableMeshes s @ [c]"
    and "c \<notin> set (interactableMeshes s)"
    and "\<And>j. j \<noteq> c \<Longrightarrow> heap s' j = heap s j"
    and "heap s' c = Some m"
  shows "meshes_of s' = meshes_of s @ [(c, m)]"
proof -
  have "heap s' j = heap s j" if "j \<in> set (interactableMeshes s)" for j
    using that assms(2) assms(3) [of j] by auto
  then have "List.map_filter (\<lambda>i. map_option (Pair i) (heap s' i)) (interactableMeshes s) =
             List.map_filter (\<lambda>i. map_option (Pair i) (heap s i)) (interactableMeshes s)"
    unfolding List.map_filter_def
    by (intro arg_cong2 [where f = map] filter_cong refl map_cong) auto
  then show ?thesis
    using assms(1,4) by (simp add: meshes_of_def List.map_filter_def)
qed

lemma indicator_frame:
  assumes "heap s c = Some m"
  shows "interactableMeshes (addWarrantyIndicator c e s) = interactableMeshes s"
    and "pendingDatabaseDevices (addWarrantyIndicator c e s) = pendingDatabaseDevices s"
    and "next_id s \<le> next_id (addWarrantyIndicator c e s)"
    and "j \<noteq> c \<Longrightarrow> heap (addWarrantyIndicator c e s) j = heap s j"
    and "\<exists>m'. heap (addWarrantyIndicator c e s) c = Some m' \<and> dbKey m' = dbKey m \<and> name m' = name m"
  using assms
  by (auto simp: addWarrantyIndicator_def Let_def split: option.splits)

lemma spawn_found:
  assumes "find_mesh (\<lambda>m. includes_str (name m) (mesh_identifier (product d))) s = Some (t, tm)"
    and "pool_wf s"
  shows "\<exists>m. meshes_of (snd (spawnDeviceFromDatabase d s)) = meshes_of s @ [(next_id s, m)]
           \<and> dbKey m = Some (dbKey_of d) \<and> name m = dbKey_of d"
    and "pool_wf (snd (spawnDeviceFromDatabase d s))"
    and "pendingDatabaseDevices (snd (spawnDeviceFromDatabase d s)) = pendingDatabaseDevices s"
    and "fst (spawnDeviceFromDatabase d s) = Some (next_id s)"
proof -
  let ?c = "next_id s"
  obtain s1 cl where
    eq: "spawnDeviceFromDatabase d s =
           (Some ?c, (addWarrantyIndicator ?c (warranty_expiry d) s1)
                       \<lparr>console := console (addWarrantyIndicator ?c (warranty_expiry d) s1)
                                     @ [Spawned (product_name (product d))]\<rparr>)"
    and s1: "interactableMeshes s1 = interactableMeshes s @ [?c]"
            "heap s1 = (heap s)(?c \<mapsto> cl)"
            "next_id s1 = ?c + 3"
            "pendingDatabaseDevices s1 = pendingDatabaseDevices s"
            "dbKey cl = Some (dbKey_of d)" "name cl = dbKey_of d"
    using assms(1)
    by (auto simp: spawnDeviceFromDatabase_def Let_def split: option.splits)
  let ?s2 = "addWarrantyIndicator ?c (warranty_expiry d) s1"
  let ?s' = "snd (spawnDeviceFromDatabase d s)"
  have h1: "heap s1 ?c = Some cl" by (simp add: s1)
  note f = indicator_frame [OF h1, where e = "warranty_expiry d"]
  from f(5) obtain m' where m': "heap ?s2 ?c = Some m'" "dbKey m' = dbKey cl" "name m' = name cl"
    by blast
  have fresh: "?c \<notin> set (interactableMeshes s)"
    using assms(2) by (auto simp: pool_wf_def list_all_iff)
  have "meshes_of ?s' = meshes_of s @ [(?c, m')]"
  proof (rule meshes_of_snoc)
    show "interactableMeshes ?s' = interactableMeshes s @ [?c]" by (simp add: eq f(1) s1)
    show "?c \<notin> set (interactableMeshes s)" by (rule fresh)
    show "\<And>j. j \<noteq> ?c \<Longrightarrow> heap ?s' j = heap s j" by (simp add: eq f(4) s1)
    show "heap ?s' ?c = Some m'" by (simp add: eq m')
  qed
  with m' s1 show "\<exists>m. meshes_of ?s' = meshes_of s @ [(?c, m)]
           \<and> dbKey m = Some (dbKey_of d) \<and> name m = dbKey_of d" by auto
  have "list_all (\<lambda>i. i < next_id ?s2) (interactableMeshes s @ [?c])"
    using assms(2) f(3) by (auto simp: pool_wf_def list_all_iff s1)
  then show "pool_wf ?s'" by (simp add: pool_wf_def eq f(1) s1)
  show "pendingDatabaseDevices ?s' = pendingDatabaseDevices s" by (simp add: eq f(2) s1)
  show "fst (spawnDeviceFromDatabase d s) = Some ?c" by (simp add: eq)
qed

lemma spawn_missing:
  assumes "find_mesh (\<lambda>m. includes_str (name m) (mesh_identifier (product d))) s = None"
  shows "spawnDeviceFromDatabase d s =
           (None, s\<lparr>console := console s @ [NoModelFound (mesh_identifier (product d))],
                    pendingDatabaseDevices :=
                      Some ((case pendingDatabaseDevices s of None \<Rightarrow> [] | Some q \<Rightarrow> q) @ [d])\<rparr>)"
  using assms by (simp add: spawnDeviceFromDatabase_def Let_def)








lemma pool_wf_init: "pool_wf init_state"
  by (simp add: pool_wf_def init_state_def)

lemma pool_wf_spawn: "pool_wf s \<Longrightarrow> pool_wf (snd (spawnDeviceFromDatabase d s))"
proof (cases "find_mesh (\<lambda>m. includes_str (name m) (mesh_identifier (product d))) s")
  case None
  assume "pool_wf s"
  then show ?thesis by (simp add: spawn_missing [OF None] pool_wf_def)
next
  case (Some p)
  assume a: "pool_wf s"
  obtain t tm where "p = (t, tm)" by (cases p)
  with Some a show ?thesis by (simp add: spawn_found(2))
qed











end
